theory Spec2Isabelle
  imports Main "HOL-Library.Sublist"
begin

section \<open>Strings of the editor\<close>

text \<open>
  A JavaScript string is modelled as a \<^typ>\<open>string\<close> holding its UTF-8 bytes, so the
  non-ASCII characters of the source's literals are written byte by byte.
  \<^verbatim>\<open>a.includes(b)\<close> is the substring test, \<^verbatim>\<open>x || d\<close> on a nullable string
  takes \<open>d\<close> when \<open>x\<close> is null, undefined or empty.
\<close>

definition NL :: string where
  "NL = [CHR 0x0A]"

definition str_includes :: "string \<Rightarrow> string \<Rightarrow> bool" where
  "str_includes s t = sublist t s"

definition truthy :: "string option \<Rightarrow> bool" where
  "truthy x = (case x of None \<Rightarrow> False | Some s \<Rightarrow> s \<noteq> [])"

definition or_else :: "string option \<Rightarrow> string \<Rightarrow> string" where
  "or_else x d = (case x of None \<Rightarrow> d | Some s \<Rightarrow> if s = [] then d else s)"

fun join :: "string \<Rightarrow> string list \<Rightarrow> string" where
  "join sep [] = []"
| "join sep [x] = x"
| "join sep (x # y # ys) = x @ sep @ join sep (y # ys)"

text \<open>
  A template literal prints a number in decimal. \<open>progress_percentage\<close> is an integer
  in the job snapshots (the rendering of integers below \<open>10^21\<close> in magnitude).
\<close>

definition digit_char :: "nat \<Rightarrow> char" where
  "digit_char d = char_of (48 + d)"

function show_nat :: "nat \<Rightarrow> string" where
  "show_nat n = (if n < 10 then [digit_char n] else show_nat (n div 10) @ [digit_char (n mod 10)])"
  by pat_completeness auto
termination
  by (relation "measure id") auto

declare show_nat.simps [simp del]

definition show_int :: "int \<Rightarrow> string" where
  "show_int i = (if i < 0 then ''-'' @ show_nat (nat (- i)) else show_nat (nat i))"

subsection \<open>\<^verbatim>\<open>String.prototype.trim\<close>\<close>

text \<open>
  \<^verbatim>\<open>trim\<close> removes the white space and line terminators of ECMAScript at both ends:
  U+0009..U+000D, U+0020, U+00A0, U+1680, U+2000..U+200A, U+2028, U+2029, U+202F, U+205F,
  U+3000 and U+FEFF, here in their UTF-8 encodings of one, two or three bytes.
\<close>

definition ws1 :: "char \<Rightarrow> bool" where
  "ws1 a = (a = CHR 0x09 \<or> a = CHR 0x0A \<or> a = CHR 0x0B \<or> a = CHR 0x0C \<or> a = CHR 0x0D \<or> a = CHR 0x20)"

definition ws2 :: "char \<Rightarrow> char \<Rightarrow> bool" where
  "ws2 a b = (a = CHR 0xC2 \<and> b = CHR 0xA0)"

definition ws3 :: "char \<Rightarrow> char \<Rightarrow> char \<Rightarrow> bool" where
  "ws3 a b c =
     ((a = CHR 0xE1 \<and> b = CHR 0x9A \<and> c = CHR 0x80) \<or>
      (a = CHR 0xE2 \<and> b = CHR 0x80 \<and>
         ((0x80 \<le> (of_char c :: nat) \<and> (of_char c :: nat) \<le> 0x8A) \<or>
          c = CHR 0xA8 \<or> c = CHR 0xA9 \<or> c = CHR 0xAF)) \<or>
      (a = CHR 0xE2 \<and> b = CHR 0x81 \<and> c = CHR 0x9F) \<or>
      (a = CHR 0xE3 \<and> b = CHR 0x80 \<and> c = CHR 0x80) \<or>
      (a = CHR 0xEF \<and> b = CHR 0xBB \<and> c = CHR 0xBF))"

text \<open>The number of bytes of the white-space character a string starts with, 0 if none.\<close>

definition leading_ws :: "string \<Rightarrow> nat" where
  "leading_ws s =
     (case s of
        [] \<Rightarrow> 0
      | a # r \<Rightarrow>
          if ws1 a then 1
          else (case r of
                  [] \<Rightarrow> 0
                | b # r2 \<Rightarrow>
                    if ws2 a b then 2
                    else (case r2 of [] \<Rightarrow> 0 | c # r3 \<Rightarrow> if ws3 a b c then 3 else 0)))"

text \<open>The same for the character a string ends with.\<close>

definition trailing_ws :: "string \<Rightarrow> nat" where
  "trailing_ws s =
     (case rev s of
        [] \<Rightarrow> 0
      | c # r \<Rightarrow>
          if ws1 c then 1
          else (case r of
                  [] \<Rightarrow> 0
                | b # r2 \<Rightarrow>
                    if ws2 b c then 2
                    else (case r2 of [] \<Rightarrow> 0 | a # r3 \<Rightarrow> if ws3 a b c then 3 else 0)))"

function trimStart :: "string \<Rightarrow> string" where
  "trimStart s = (if leading_ws s = 0 then s else trimStart (drop (leading_ws s) s))"
  by pat_completeness auto
termination
proof (relation "measure length")
  show "wf (measure length)" by simp
next
  fix s :: string
  assume "leading_ws s \<noteq> 0"
  moreover have "leading_ws s \<le> length s"
    by (simp add: leading_ws_def split: list.splits)
  ultimately show "(drop (leading_ws s) s, s) \<in> measure length" by simp
qed

function trimEnd :: "string \<Rightarrow> string" where
  "trimEnd s = (if trailing_ws s = 0 then s else trimEnd (take (length s - trailing_ws s) s))"
  by pat_completeness auto
termination
proof (relation "measure length")
  show "wf (measure length)" by simp
next
  fix s :: string
  assume "trailing_ws s \<noteq> 0"
  moreover have "trailing_ws s \<le> length (rev s)"
    unfolding trailing_ws_def by (simp split: list.splits)
  ultimately show "(take (length s - trailing_ws s) s, s) \<in> measure length" by simp
qed

declare trimStart.simps [simp del] trimEnd.simps [simp del]

definition trim :: "string \<Rightarrow> string" where
  "trim s = trimEnd (trimStart s)"

text \<open>
  A string that is empty or made of white-space characters only: the strings the word
  ``blank'' stands for below.
\<close>

function whitespace_only :: "string \<Rightarrow> bool" where
  "whitespace_only s =
     (if s = [] then True
      else if leading_ws s = 0 then False
      else whitespace_only (drop (leading_ws s) s))"
  by pat_completeness auto
termination
proof (relation "measure length")
  show "wf (measure length)" by simp
next
  fix s :: string
  assume "s \<noteq> []" and "leading_ws s \<noteq> 0"
  moreover have "leading_ws s \<le> length s"
    by (simp add: leading_ws_def split: list.splits)
  ultimately show "(drop (leading_ws s) s, s) \<in> measure length" by simp
qed

declare whitespace_only.simps [simp del]

section \<open>Data model\<close>

text \<open>
  \<^verbatim>\<open>src/frontend/src/pages/Editor.tsx\<close>, lines 26--55: the job status type, the
  job snapshot and the state of the component. Optional fields are options; the payload of
  \<^verbatim>\<open>details\<close> and the portfolio document are opaque.
\<close>

datatype Role = user | assistant

record Message =
  role :: Role
  content :: string

datatype JobStatus =
  pending | processing | ocr_extracting | ai_generating | validating
  | completed | failed | cancelled

record JobError =
  message :: string
  details :: "string option"

record JobStatusData =
  job_id :: string
  status :: JobStatus
  progress_percentage :: int
  current_stage :: "string option"
  error :: "JobError option"
  duration_seconds :: "int option"
  portfolio_id :: "string option"

text \<open>
  What an awaited \<^verbatim>\<open>api.get\<close> does: it resolves with \<^verbatim>\<open>response.data\<close>
  (\<open>None\<close> when the body is null or undefined), or it rejects with an error whose
  \<^verbatim>\<open>error.response?.status\<close> is the given option.
\<close>

datatype 'a Response = Resolved 'a | Rejected "nat option"

text \<open>
  How the call settles for an HTTP response with a given status and body. The instance of
  \<^verbatim>\<open>src/frontend/src/lib/api.ts\<close> is \<^verbatim>\<open>axios.create({ baseURL })\<close> with interceptors
  that pass responses and errors through, so the default \<^verbatim>\<open>validateStatus\<close> of axios
  decides: a status from 200 to 299 resolves, any other rejects with that status.
\<close>

definition axios_settle :: "nat \<Rightarrow> 'a \<Rightarrow> 'a Response" where
  "axios_settle httpStatus body =
     (if 200 \<le> httpStatus \<and> httpStatus < 300 then Resolved body else Rejected (Some httpStatus))"

datatype Request = GET string

datatype LogEntry =
  PortfolioReceived | ErrorFetchingPortfolio | ErrorDetails | ErrorPollingJobStatus
  | SocketError

text \<open>
  The three \<^verbatim>\<open>useState\<close> cells both editors have, with the console as a log of what
  was written to it.
\<close>

record EditorCore =
  messages :: "Message list"
  input :: string
  isGenerating :: bool
  console :: "LogEntry list"

text \<open>
  The polling editor. Besides its state cells it owns two timers: \<open>intervalId\<close> and
  \<open>timeoutId\<close> hold the delay in milliseconds of a timer that is live and \<open>None\<close> once
  it is cleared or, for the timeout, has fired. \<open>closureJobStatus\<close> is the value of
  \<^verbatim>\<open>jobStatus\<close> in the render whose effect armed the timers: the callbacks read that
  constant, not the state cell. \<open>requests\<close> lists the network calls made so far.
\<close>

record 'p JobEditor = EditorCore +
  jobStatus :: "JobStatusData option"
  portfolioData :: "'p option"
  intervalId :: "nat option"
  timeoutId :: "nat option"
  closureJobStatus :: "JobStatusData option"
  generatingTimers :: nat
  replyTimers :: nat
  requests :: "Request list"

definition setMessages :: "(Message list \<Rightarrow> Message list) \<Rightarrow> ('a EditorCore_scheme) \<Rightarrow> ('a EditorCore_scheme)" where
  "setMessages f st = st\<lparr>messages := f (messages st)\<rparr>"

definition setIsGenerating :: "bool \<Rightarrow> ('a EditorCore_scheme) \<Rightarrow> ('a EditorCore_scheme)" where
  "setIsGenerating b st = st\<lparr>isGenerating := b\<rparr>"

definition setInput :: "string \<Rightarrow> ('a EditorCore_scheme) \<Rightarrow> ('a EditorCore_scheme)" where
  "setInput s st = st\<lparr>input := s\<rparr>"

definition console_write :: "LogEntry \<Rightarrow> ('a EditorCore_scheme) \<Rightarrow> ('a EditorCore_scheme)" where
  "console_write e st = st\<lparr>console := console st @ [e]\<rparr>"

definition setJobStatus :: "JobStatusData option \<Rightarrow> 'p JobEditor \<Rightarrow> 'p JobEditor" where
  "setJobStatus j st = st\<lparr>jobStatus := j\<rparr>"

definition setPortfolioData :: "'p option \<Rightarrow> 'p JobEditor \<Rightarrow> 'p JobEditor" where
  "setPortfolioData d st = st\<lparr>portfolioData := d\<rparr>"

definition api_get :: "string \<Rightarrow> 'p JobEditor \<Rightarrow> 'p JobEditor" where
  "api_get url st = st\<lparr>requests := requests st @ [GET url]\<rparr>"

definition clearInterval :: "'p JobEditor \<Rightarrow> 'p JobEditor" where
  "clearInterval st = st\<lparr>intervalId := None\<rparr>"

definition clearTimeout :: "'p JobEditor \<Rightarrow> 'p JobEditor" where
  "clearTimeout st = st\<lparr>timeoutId := None\<rparr>"

definition initial_editor :: "'p JobEditor" where
  "initial_editor =
     \<lparr>messages = [], input = [], isGenerating = False, console = [],
      jobStatus = None, portfolioData = None, intervalId = None, timeoutId = None,
      closureJobStatus = None, generatingTimers = 0, replyTimers = 0, requests = []\<rparr>"

section \<open>The status poller\<close>

subsection \<open>Message texts\<close>

definition check_mark :: string where
  "check_mark = [CHR 0xE2, CHR 0x9C, CHR 0x85]"

definition cross_mark :: string where
  "cross_mark = [CHR 0xE2, CHR 0x9D, CHR 0x8C]"

definition stopwatch :: string where
  "stopwatch = [CHR 0xE2, CHR 0x8F, CHR 0xB1, CHR 0xEF, CHR 0xB8, CHR 0x8F]"

definition error_message :: "JobStatusData \<Rightarrow> string" where
  "error_message statusData = or_else (map_option message (error statusData)) ''Unknown error''"

fun statusMessages :: "JobStatusData \<Rightarrow> JobStatus \<Rightarrow> string" where
  "statusMessages statusData pending = ''Job queued, waiting to start...''"
| "statusMessages statusData processing = ''Initializing portfolio generation...''"
| "statusMessages statusData ocr_extracting = ''Extracting text from your resume...''"
| "statusMessages statusData ai_generating = ''AI is generating your portfolio content...''"
| "statusMessages statusData validating = ''Validating and finalizing your portfolio...''"
| "statusMessages statusData completed = ''Portfolio generation complete!''"
| "statusMessages statusData failed = ''Generation failed: '' @ error_message statusData"
| "statusMessages statusData cancelled = ''Job was cancelled''"

definition statusMessage :: "JobStatusData \<Rightarrow> string" where
  "statusMessage statusData =
     or_else (Some (statusMessages statusData (status statusData))) ''Processing...''"

definition progress_line :: "JobStatusData \<Rightarrow> string" where
  "progress_line statusData =
     statusMessage statusData @ NL @ NL @ ''Progress: ''
       @ show_int (progress_percentage statusData) @ ''%'' @ NL @ ''Stage: ''
       @ or_else (current_stage statusData) ''Initializing''"

definition completion_text :: string where
  "completion_text =
     check_mark @ '' Portfolio generation complete! Your portfolio is ready. Check the preview window.''"

definition failure_text :: "JobStatusData \<Rightarrow> string" where
  "failure_text statusData =
     cross_mark @ '' Portfolio generation failed.'' @ NL @ NL @ ''Error: ''
       @ error_message statusData @ NL @ NL @ ''Please try uploading your resume again.''"

definition job_not_found_text :: string where
  "job_not_found_text = cross_mark @ '' Job not found. Please check your job ID and try again.''"

definition timeout_text :: string where
  "timeout_text =
     stopwatch @ '' Polling timeout. Please check the job status manually or try again.''"

definition acknowledgement_text :: "string option \<Rightarrow> string \<Rightarrow> string" where
  "acknowledgement_text attachedFile jobId =
     ''I've received your resume ('' @ or_else attachedFile ''file'' @ ''). Job ID: '' @ jobId
       @ ''.'' @ NL @ NL
       @ ''I am currently analyzing the document to extract your skills, experience, and projects. Once done, I will generate your portfolio structure.''"

definition assistant_says :: "string \<Rightarrow> Message" where
  "assistant_says text = \<lparr>role = assistant, content = text\<rparr>"

definition user_says :: "string \<Rightarrow> Message" where
  "user_says text = \<lparr>role = user, content = text\<rparr>"

subsection \<open>\<^verbatim>\<open>pollJobStatus\<close> (lines 88--181)\<close>

text \<open>
  The updater of lines 108--117: the last message is replaced by the progress line when it
  is an assistant message whose text includes \<^verbatim>\<open>analyzing\<close>, else the list is returned
  as it is.
\<close>

definition coalesce :: "JobStatusData \<Rightarrow> Message list \<Rightarrow> Message list" where
  "coalesce statusData prev =
     (if prev \<noteq> [] \<and> role (last prev) = assistant \<and> str_includes (content (last prev)) ''analyzing''
      then butlast prev @ [assistant_says (progress_line statusData)]
      else prev)"

text \<open>
  One call of \<^verbatim>\<open>pollJobStatus\<close>, given what the two requests answer; the second answer
  is read only when the request is made. The result is the promised \<^verbatim>\<open>shouldStop\<close>
  and the state. A null body makes \<^verbatim>\<open>statusData.error\<close> (or \<^verbatim>\<open>portfolio.id\<close>)
  throw a TypeError, which the enclosing \<^verbatim>\<open>catch\<close> receives as an error without a
  response.
\<close>

definition pollJobStatus ::
    "string \<Rightarrow> JobStatusData option Response \<Rightarrow> 'p option Response \<Rightarrow> 'p JobEditor
      \<Rightarrow> bool \<times> 'p JobEditor" where
  "pollJobStatus jobId statusResponse portfolioResponse st0 =
     (let st1 = api_get (''/jobs/'' @ jobId) st0 in
      case statusResponse of
        Rejected code \<Rightarrow>
          (let st2 = console_write ErrorPollingJobStatus st1 in
           if code = Some 404
           then (True, setMessages (\<lambda>prev. prev @ [assistant_says job_not_found_text])
                         (setIsGenerating False st2))
           else (False, st2))
      | Resolved None \<Rightarrow>
          (False, console_write ErrorPollingJobStatus (setJobStatus None st1))
      | Resolved (Some statusData) \<Rightarrow>
          (let st2 = setJobStatus (Some statusData) st1;
               st3 = setMessages (coalesce statusData) st2 in
           if status statusData = completed \<and> truthy (portfolio_id statusData)
           then
             (let st4 = api_get (''/portfolio/'' @ jobId) st3 in
              case portfolioResponse of
                Resolved (Some portfolio) \<Rightarrow>
                  (True, setIsGenerating False
                           (setMessages (\<lambda>prev. prev @ [assistant_says completion_text])
                              (setPortfolioData (Some portfolio)
                                 (console_write PortfolioReceived st4))))
              | Resolved None \<Rightarrow>
                  (False, console_write ErrorDetails (console_write ErrorFetchingPortfolio st4))
              | Rejected code \<Rightarrow>
                  if code = Some 202 \<or> code = Some 404 then (False, st4)
                  else (False, console_write ErrorDetails
                                 (console_write ErrorFetchingPortfolio st4)))
           else if status statusData = failed
           then (True, setMessages (\<lambda>prev. prev @ [assistant_says (failure_text statusData)])
                         (setIsGenerating False st3))
           else (False, st3)))"

subsection \<open>The effect and its timers (lines 57--215)\<close>

definition userContent :: "string \<Rightarrow> string option \<Rightarrow> string option \<Rightarrow> string" where
  "userContent initialPrompt attachedFile jobId =
     join NL
       ((if initialPrompt \<noteq> [] then [initialPrompt] else [])
        @ (if truthy attachedFile then [''[Attached: '' @ or_else attachedFile [] @ '']''] else [])
        @ (if truthy jobId then [''[Job ID: '' @ or_else jobId [] @ '']''] else []))"

definition assistantContent :: "string \<Rightarrow> string option \<Rightarrow> string option \<Rightarrow> string" where
  "assistantContent initialPrompt attachedFile jobId =
     (if truthy jobId then acknowledgement_text attachedFile (or_else jobId [])
      else ''I'll help you create that! Let me build a ''
             @ (if str_includes initialPrompt ''landing'' then ''landing page''
                else ''web application'')
             @ '' for you.'' @ NL @ NL @ ''Generating your project structure...'')"

definition pending_job :: "string \<Rightarrow> JobStatusData" where
  "pending_job jobId =
     \<lparr>job_id = jobId, status = pending, progress_percentage = 0, current_stage = None,
      error = None, duration_seconds = None, portfolio_id = None\<rparr>"

text \<open>
  The body of the effect, the request of the initial poll apart (the event \<open>InitialPoll\<close>
  below is that call). The timers' callbacks close over the \<^verbatim>\<open>jobStatus\<close> of the
  render the effect belongs to, which \<^verbatim>\<open>setJobStatus\<close> in the effect does not change.
\<close>

definition useEffect :: "string \<Rightarrow> string option \<Rightarrow> string option \<Rightarrow> 'p JobEditor \<Rightarrow> 'p JobEditor" where
  "useEffect initialPrompt attachedFile jobId st =
     (if initialPrompt \<noteq> [] \<or> truthy attachedFile \<or> truthy jobId
      then
        (let st1 = setMessages
                     (\<lambda>prev. [user_says (userContent initialPrompt attachedFile jobId),
                               assistant_says (assistantContent initialPrompt attachedFile jobId)])
                     st
         in if truthy jobId
            then (setJobStatus (Some (pending_job (or_else jobId []))) (setIsGenerating True st1))
                   \<lparr>intervalId := Some 2000, timeoutId := Some 300000,
                    closureJobStatus := jobStatus st\<rparr>
            else (setIsGenerating True st1)\<lparr>generatingTimers := generatingTimers st1 + 1\<rparr>)
      else st)"

text \<open>The callback of \<^verbatim>\<open>setInterval\<close> (lines 187--192).\<close>

definition intervalCallback ::
    "string \<Rightarrow> JobStatusData option Response \<Rightarrow> 'p option Response \<Rightarrow> 'p JobEditor \<Rightarrow> 'p JobEditor" where
  "intervalCallback jobId statusResponse portfolioResponse st =
     (case pollJobStatus jobId statusResponse portfolioResponse st of
        (shouldStop, st') \<Rightarrow> if shouldStop then clearInterval st' else st')"

text \<open>The callback of \<^verbatim>\<open>setTimeout\<close> (lines 195--204).\<close>

definition timeoutCallback :: "'p JobEditor \<Rightarrow> 'p JobEditor" where
  "timeoutCallback st =
     (let st1 = clearInterval st in
      if map_option status (closureJobStatus st) \<noteq> Some completed
         \<and> map_option status (closureJobStatus st) \<noteq> Some failed
      then setMessages (\<lambda>prev. prev @ [assistant_says timeout_text]) (setIsGenerating False st1)
      else st1)"

text \<open>The cleanup the effect returns (lines 206--209).\<close>

definition cleanup :: "'p JobEditor \<Rightarrow> 'p JobEditor" where
  "cleanup st = clearTimeout (clearInterval st)"

subsection \<open>\<^verbatim>\<open>handleSend\<close> of the polling editor (lines 217--229)\<close>

definition reply_text :: string where
  "reply_text = ''I've made those changes. You can see the updated preview on the right.''"

definition handleSend :: "'p JobEditor \<Rightarrow> 'p JobEditor" where
  "handleSend st =
     (if trim (input st) = [] then st
      else (setIsGenerating True
              (setInput [] (setMessages (\<lambda>prev. prev @ [user_says (input st)]) st)))
             \<lparr>replyTimers := replyTimers st + 1\<rparr>)"

definition replyCallback :: "'p JobEditor \<Rightarrow> 'p JobEditor" where
  "replyCallback st =
     setIsGenerating False (setMessages (\<lambda>prev. prev @ [assistant_says reply_text]) st)"

subsection \<open>Runs of the polling editor\<close>

text \<open>
  What happens to a mounted editor, one event at a time. Here a poll is one step: its
  requests are answered before the next event (runs in which polls overlap follow below).
  A timer that was cleared does not fire, and the timeout fires once.
\<close>

datatype 'p Event =
  InitialPoll "JobStatusData option Response" "'p option Response"
  | IntervalTick "JobStatusData option Response" "'p option Response"
  | DeadlineFired
  | Unmount
  | SendClicked
  | ReplyTimerFired
  | GeneratingTimerFired

fun step :: "string \<Rightarrow> 'p Event \<Rightarrow> 'p JobEditor \<Rightarrow> 'p JobEditor" where
  "step jobId (InitialPoll statusResponse portfolioResponse) st =
     snd (pollJobStatus jobId statusResponse portfolioResponse st)"
| "step jobId (IntervalTick statusResponse portfolioResponse) st =
     (if intervalId st = None then st
      else intervalCallback jobId statusResponse portfolioResponse st)"
| "step jobId DeadlineFired st =
     (if timeoutId st = None then st else timeoutCallback (st\<lparr>timeoutId := None\<rparr>))"
| "step jobId Unmount st = cleanup st"
| "step jobId SendClicked st = handleSend st"
| "step jobId ReplyTimerFired st =
     (if replyTimers st = 0 then st else replyCallback (st\<lparr>replyTimers := replyTimers st - 1\<rparr>))"
| "step jobId GeneratingTimerFired st =
     (if generatingTimers st = 0 then st
      else setIsGenerating False (st\<lparr>generatingTimers := generatingTimers st - 1\<rparr>))"

fun run :: "string \<Rightarrow> 'p Event list \<Rightarrow> 'p JobEditor \<Rightarrow> 'p JobEditor" where
  "run jobId [] st = st"
| "run jobId (e # es) st = run jobId es (step jobId e st)"

subsection \<open>Polls that overlap\<close>

text \<open>
  \<^verbatim>\<open>setInterval\<close> does not wait for its asynchronous callback, and the requests have
  no timeout: a tick may fire while an earlier poll still awaits an answer. For runs in
  which polls overlap, \<^verbatim>\<open>pollJobStatus\<close> is cut at its two \<^verbatim>\<open>await\<close>s: the part
  that sends the status request, the part that runs when the status request settles (it
  returns, or sends the portfolio request and waits again; \<open>None\<close> is the latter), and
  the part that runs when the portfolio request settles.
\<close>

definition poll_start :: "string \<Rightarrow> 'p JobEditor \<Rightarrow> 'p JobEditor" where
  "poll_start jobId st0 = api_get (''/jobs/'' @ jobId) st0"

definition poll_status ::
    "string \<Rightarrow> JobStatusData option Response \<Rightarrow> 'p JobEditor \<Rightarrow> bool option \<times> 'p JobEditor" where
  "poll_status jobId statusResponse st1 =
     (case statusResponse of
        Rejected code \<Rightarrow>
          (let st2 = console_write ErrorPollingJobStatus st1 in
           if code = Some 404
           then (Some True, setMessages (\<lambda>prev. prev @ [assistant_says job_not_found_text])
                              (setIsGenerating False st2))
           else (Some False, st2))
      | Resolved None \<Rightarrow>
          (Some False, console_write ErrorPollingJobStatus (setJobStatus None st1))
      | Resolved (Some statusData) \<Rightarrow>
          (let st2 = setJobStatus (Some statusData) st1;
               st3 = setMessages (coalesce statusData) st2 in
           if status statusData = completed \<and> truthy (portfolio_id statusData)
           then (None, api_get (''/portfolio/'' @ jobId) st3)
           else if status statusData = failed
           then (Some True, setMessages (\<lambda>prev. prev @ [assistant_says (failure_text statusData)])
                              (setIsGenerating False st3))
           else (Some False, st3)))"

definition poll_portfolio :: "'p option Response \<Rightarrow> 'p JobEditor \<Rightarrow> bool \<times> 'p JobEditor" where
  "poll_portfolio portfolioResponse st4 =
     (case portfolioResponse of
        Resolved (Some portfolio) \<Rightarrow>
          (True, setIsGenerating False
                   (setMessages (\<lambda>prev. prev @ [assistant_says completion_text])
                      (setPortfolioData (Some portfolio)
                         (console_write PortfolioReceived st4))))
      | Resolved None \<Rightarrow>
          (False, console_write ErrorDetails (console_write ErrorFetchingPortfolio st4))
      | Rejected code \<Rightarrow>
          if code = Some 202 \<or> code = Some 404 then (False, st4)
          else (False, console_write ErrorDetails (console_write ErrorFetchingPortfolio st4)))"

text \<open>
  A poll was called by the effect (line 184, its result is dropped) or by the interval
  callback (lines 187--192, which clears the interval when the result is true); it awaits
  the status answer, awaits the portfolio answer, or has returned.
\<close>

datatype Caller = ByEffect | ByInterval

datatype Stage = AwaitingStatus | AwaitingPortfolio | Returned bool

type_synonym Poll = "Caller \<times> Stage"

definition settle :: "Caller \<Rightarrow> bool \<Rightarrow> 'p JobEditor \<Rightarrow> 'p JobEditor" where
  "settle who shouldStop st = (if who = ByInterval \<and> shouldStop then clearInterval st else st)"

text \<open>
  The events of such a run: the effect or the interval timer calls \<^verbatim>\<open>pollJobStatus\<close>,
  which sends the status request and suspends; a request of the poll numbered \<open>k\<close>
  settles and the poll runs on; the deadline timer fires; the effect is cleaned up. The
  polls are numbered in the order they were called.
\<close>

datatype 'p AsyncEvent =
  EffectPoll
  | TimerFired
  | StatusAnswered nat "JobStatusData option Response"
  | PortfolioAnswered nat "'p option Response"
  | DeadlineReached
  | Unmounted

fun async_step ::
    "string \<Rightarrow> 'p AsyncEvent \<Rightarrow> 'p JobEditor \<times> Poll list \<Rightarrow> 'p JobEditor \<times> Poll list" where
  "async_step jobId EffectPoll (st, polls) =
     (poll_start jobId st, polls @ [(ByEffect, AwaitingStatus)])"
| "async_step jobId TimerFired (st, polls) =
     (if intervalId st = None then (st, polls)
      else (poll_start jobId st, polls @ [(ByInterval, AwaitingStatus)]))"
| "async_step jobId (StatusAnswered k statusResponse) (st, polls) =
     (if k < length polls \<and> snd (polls ! k) = AwaitingStatus
      then (case poll_status jobId statusResponse st of
              (None, st') \<Rightarrow> (st', polls[k := (fst (polls ! k), AwaitingPortfolio)])
            | (Some shouldStop, st') \<Rightarrow>
                (settle (fst (polls ! k)) shouldStop st',
                 polls[k := (fst (polls ! k), Returned shouldStop)]))
      else (st, polls))"
| "async_step jobId (PortfolioAnswered k portfolioResponse) (st, polls) =
     (if k < length polls \<and> snd (polls ! k) = AwaitingPortfolio
      then (case poll_portfolio portfolioResponse st of
              (shouldStop, st') \<Rightarrow>
                (settle (fst (polls ! k)) shouldStop st',
                 polls[k := (fst (polls ! k), Returned shouldStop)]))
      else (st, polls))"
| "async_step jobId DeadlineReached (st, polls) = (step jobId DeadlineFired st, polls)"
| "async_step jobId Unmounted (st, polls) = (cleanup st, polls)"

fun async_run ::
    "string \<Rightarrow> 'p AsyncEvent list \<Rightarrow> 'p JobEditor \<times> Poll list \<Rightarrow> 'p JobEditor \<times> Poll list" where
  "async_run jobId [] s = s"
| "async_run jobId (e # es) s = async_run jobId es (async_step jobId e s)"

text \<open>The events of polling: timer ticks and answers. A poll that has returned.\<close>

fun is_poll_event :: "'p AsyncEvent \<Rightarrow> bool" where
  "is_poll_event TimerFired = True"
| "is_poll_event (StatusAnswered k statusResponse) = True"
| "is_poll_event (PortfolioAnswered k portfolioResponse) = True"
| "is_poll_event e = False"

fun has_returned :: "Poll \<Rightarrow> bool" where
  "has_returned (who, Returned shouldStop) = True"
| "has_returned p = False"


section \<open>The streaming editor (\<^verbatim>\<open>src/unnamed/part_001\<close>)\<close>

datatype ReadyState = CONNECTING | OPEN | CLOSING | CLOSED

text \<open>
  One \<^verbatim>\<open>WebSocket\<close> of a call of \<^verbatim>\<open>handleSend\<close>, with the two variables its
  handlers close over and the frames sent through it.
\<close>

record Socket =
  textToSend :: string
  accumulatedResponse :: string
  readyState :: ReadyState
  sent :: "string list"

record ChatEditor = EditorCore +
  sockets :: "Socket list"

definition END_OF_STREAM :: string where
  "END_OF_STREAM = ''__END_OF_STREAM__''"

definition connection_error_text :: string where
  "connection_error_text =
     [CHR 0xE2, CHR 0x80, CHR 0x9A, CHR 0xC3, CHR 0xB9, CHR 0xC3, CHR 0xA5]
       @ '' Connection Error. Please verify backend is running.''"

definition new_WebSocket :: "string \<Rightarrow> Socket" where
  "new_WebSocket text = \<lparr>textToSend = text, accumulatedResponse = [], readyState = CONNECTING, sent = []\<rparr>"

text \<open>\<^verbatim>\<open>handleSend\<close> (lines 26--65), up to the installation of the handlers.\<close>

definition chat_handleSend :: "string option \<Rightarrow> ChatEditor \<Rightarrow> ChatEditor" where
  "chat_handleSend overrideInput st =
     (let text = or_else overrideInput (input st) in
      if trim text = [] then st
      else
        (let st1 = setMessages (\<lambda>prev. prev @ [user_says text]) st;
             st2 = (if \<not> truthy overrideInput then setInput [] st1 else st1);
             st3 = setIsGenerating True st2
         in st3\<lparr>sockets := sockets st3 @ [new_WebSocket text]\<rparr>))"

definition update_socket :: "nat \<Rightarrow> (Socket \<Rightarrow> Socket) \<Rightarrow> ChatEditor \<Rightarrow> ChatEditor" where
  "update_socket i f st = st\<lparr>sockets := (sockets st)[i := f (sockets st ! i)]\<rparr>"

text \<open>\<^verbatim>\<open>socket.onopen\<close> (lines 37--39).\<close>

definition onopen :: "nat \<Rightarrow> ChatEditor \<Rightarrow> ChatEditor" where
  "onopen i st = update_socket i (\<lambda>s. s\<lparr>sent := sent s @ [textToSend s]\<rparr>) st"

text \<open>\<^verbatim>\<open>socket.onmessage\<close> (lines 41--55).\<close>

definition onmessage :: "nat \<Rightarrow> string \<Rightarrow> ChatEditor \<Rightarrow> ChatEditor" where
  "onmessage i data st =
     (if data = END_OF_STREAM
      then update_socket i (\<lambda>s. s\<lparr>readyState := CLOSING\<rparr>) (setIsGenerating False st)
      else
        (let st1 = update_socket i
                     (\<lambda>s. s\<lparr>accumulatedResponse := accumulatedResponse s @ data\<rparr>) st;
             acc = accumulatedResponse (sockets st1 ! i)
         in setMessages
              (\<lambda>prev. if prev \<noteq> [] \<and> role (last prev) = assistant
                       then butlast prev @ [assistant_says acc]
                       else prev @ [assistant_says acc])
              st1))"

text \<open>\<^verbatim>\<open>socket.onerror\<close> (lines 57--64).\<close>

definition onerror :: "nat \<Rightarrow> ChatEditor \<Rightarrow> ChatEditor" where
  "onerror i st =
     setMessages (\<lambda>prev. prev @ [assistant_says connection_error_text])
       (setIsGenerating False (console_write SocketError st))"

text \<open>
  The events of the sockets. The browser opens a connecting socket, delivers a frame to
  an open one only, and has closed the socket when it reports an error.
\<close>

datatype ChatEvent =
  Send "string option"
  | Opened nat
  | Frame nat string
  | Failed nat

fun chat_step :: "ChatEvent \<Rightarrow> ChatEditor \<Rightarrow> ChatEditor" where
  "chat_step (Send overrideInput) st = chat_handleSend overrideInput st"
| "chat_step (Opened i) st =
     (if i < length (sockets st) \<and> readyState (sockets st ! i) = CONNECTING
      then onopen i (update_socket i (\<lambda>s. s\<lparr>readyState := OPEN\<rparr>) st)
      else st)"
| "chat_step (Frame i data) st =
     (if i < length (sockets st) \<and> readyState (sockets st ! i) = OPEN
      then onmessage i data st
      else st)"
| "chat_step (Failed i) st =
     (if i < length (sockets st) \<and> readyState (sockets st ! i) \<noteq> CLOSED
      then onerror i (update_socket i (\<lambda>s. s\<lparr>readyState := CLOSED\<rparr>) st)
      else st)"

fun chat_run :: "ChatEvent list \<Rightarrow> ChatEditor \<Rightarrow> ChatEditor" where
  "chat_run [] st = st"
| "chat_run (e # es) st = chat_run es (chat_step e st)"

definition initial_chat :: ChatEditor where
  "initial_chat = \<lparr>messages = [], input = [], isGenerating = False, console = [], sockets = []\<rparr>"

section \<open>Sample data\<close>

text \<open>
  An editor mounted on \<^verbatim>\<open>?fileName=resume.pdf&jobId=job-1\<close>, and snapshots the status
  endpoint may answer with.
\<close>

definition demo_mounted :: "string JobEditor" where
  "demo_mounted = useEffect [] (Some ''resume.pdf'') (Some ''job-1'') initial_editor"

definition demo_user_message :: Message where
  "demo_user_message = user_says (''[Attached: resume.pdf]'' @ NL @ ''[Job ID: job-1]'')"

definition demo_pending :: JobStatusData where
  "demo_pending =
     \<lparr>job_id = ''job-1'', status = pending, progress_percentage = 0, current_stage = None,
      error = None, duration_seconds = None, portfolio_id = None\<rparr>"

definition demo_processing :: JobStatusData where
  "demo_processing =
     \<lparr>job_id = ''job-1'', status = processing, progress_percentage = 10,
      current_stage = Some ''parsing'', error = None, duration_seconds = None,
      portfolio_id = None\<rparr>"

definition demo_completed :: JobStatusData where
  "demo_completed =
     \<lparr>job_id = ''job-1'', status = completed, progress_percentage = 100, current_stage = None,
      error = None, duration_seconds = Some 42, portfolio_id = Some ''pf-1''\<rparr>"

definition demo_completed_without_id :: JobStatusData where
  "demo_completed_without_id =
     \<lparr>job_id = ''job-1'', status = completed, progress_percentage = 100, current_stage = None,
      error = None, duration_seconds = Some 42, portfolio_id = None\<rparr>"

definition demo_failed :: JobStatusData where
  "demo_failed =
     \<lparr>job_id = ''job-1'', status = failed, progress_percentage = 40, current_stage = None,
      error = Some \<lparr>message = ''OCR engine crashed'', details = None\<rparr>,
      duration_seconds = None, portfolio_id = None\<rparr>"

definition demo_cancelled :: JobStatusData where
  "demo_cancelled =
     \<lparr>job_id = ''job-1'', status = cancelled, progress_percentage = 40, current_stage = None,
      error = None, duration_seconds = None, portfolio_id = None\<rparr>"

text \<open>The body of an HTTP 202 answer of the portfolio endpoint.\<close>

definition demo_accepted_body :: string where
  "demo_accepted_body = ''still processing''"

text \<open>A space, a tab, a no-break space and an em space.\<close>

definition demo_blank :: string where
  "demo_blank = '' '' @ [CHR 0x09, CHR 0xC2, CHR 0xA0, CHR 0xE2, CHR 0x80, CHR 0x83]"

text \<open>A chat editor whose first socket is open, after the prompt \<^verbatim>\<open>hi\<close> was sent.\<close>

definition demo_chat :: ChatEditor where
  "demo_chat = chat_run [Send (Some ''hi''), Opened 0] initial_chat"

section \<open>Basic facts\<close>

lemmas editor_defs =
  setMessages_def setIsGenerating_def setInput_def console_write_def setJobStatus_def
  setPortfolioData_def api_get_def clearInterval_def clearTimeout_def

lemma ack_includes_analyzing: "str_includes (acknowledgement_text a j) ''analyzing''"
proof -
  have "acknowledgement_text a j =
      (''I've received your resume ('' @ or_else a ''file'' @ ''). Job ID: '' @ j @ ''.''
         @ NL @ NL @ ''I am currently '')
      @ ''analyzing''
      @ '' the document to extract your skills, experience, and projects. Once done, I will generate your portfolio structure.''"
    by (simp add: acknowledgement_text_def)
  then show ?thesis
    unfolding str_includes_def by (metis sublist_appendI)
qed

lemma coalesce_ack:
  "coalesce sd (ms @ [assistant_says (acknowledgement_text a j)])
     = ms @ [assistant_says (progress_line sd)]"
  using ack_includes_analyzing [of a j] by (simp add: coalesce_def assistant_says_def)

lemma coalesce_length: "length (coalesce sd prev) = length prev"
  by (cases prev rule: rev_cases) (simp_all add: coalesce_def)

lemma coalesce_idem: "coalesce sd (coalesce sd prev) = coalesce sd prev"
  by (simp add: coalesce_def assistant_says_def)

lemma demo_mounted_eq:
  "demo_mounted =
     \<lparr>messages = [demo_user_message,
                  assistant_says (acknowledgement_text (Some ''resume.pdf'') ''job-1'')],
      input = [], isGenerating = True, console = [],
      jobStatus = Some (pending_job ''job-1''), portfolioData = None, intervalId = Some 2000,
      timeoutId = Some 300000, closureJobStatus = None, generatingTimers = 0, replyTimers = 0,
      requests = []\<rparr>"
  by (simp add: demo_mounted_def useEffect_def initial_editor_def editor_defs userContent_def
      assistantContent_def truthy_def or_else_def demo_user_message_def)

lemma failure_text_no_analyzing: "\<not> str_includes (failure_text demo_failed) ''analyzing''"
  by code_simp

lemma job_not_found_text_no_analyzing: "\<not> str_includes job_not_found_text ''analyzing''"
  by code_simp

lemma progress_line_pending_no_analyzing:
  "\<not> str_includes (progress_line demo_pending) ''analyzing''"
  by code_simp

lemma whitespace_only_trimStart: "whitespace_only s \<Longrightarrow> trimStart s = []"
proof (induction s rule: trimStart.induct)
  case (1 s)
  show ?case
  proof (cases "leading_ws s = 0")
    case True
    with "1.prems" have "s = []"
      by (subst (asm) whitespace_only.simps) (simp split: if_splits)
    then show ?thesis by (subst trimStart.simps) (simp add: leading_ws_def)
  next
    case False
    with "1.prems" have "whitespace_only (drop (leading_ws s) s)"
      by (subst (asm) whitespace_only.simps) (simp add: leading_ws_def split: if_splits)
    with False "1.IH" have "trimStart (drop (leading_ws s) s) = []" by simp
    with False show ?thesis by (subst trimStart.simps) simp
  qed
qed

lemma whitespace_only_trim: "whitespace_only s \<Longrightarrow> trim s = []"
proof -
  assume "whitespace_only s"
  then have "trimStart s = []" by (rule whitespace_only_trimStart)
  moreover have "trimEnd [] = []" by (subst trimEnd.simps) (simp add: trailing_ws_def)
  ultimately show ?thesis by (simp add: trim_def)
qed

text \<open>
  Conversely, \<^verbatim>\<open>trim\<close> leaves nothing only of such strings, so \<open>whitespace_only\<close>
  is the test \<^verbatim>\<open>!text.trim()\<close> of both \<^verbatim>\<open>handleSend\<close> functions.
\<close>

lemma trimStart_empty_whitespace_only: "trimStart s = [] \<Longrightarrow> whitespace_only s"
proof (induction s rule: trimStart.induct)
  case (1 s)
  show ?case
  proof (cases "leading_ws s = 0")
    case True
    with "1.prems" have "s = []" by (subst (asm) trimStart.simps) simp
    then show ?thesis by (subst whitespace_only.simps) simp
  next
    case False
    with "1.prems" have "trimStart (drop (leading_ws s) s) = []"
      by (subst (asm) trimStart.simps) simp
    with False "1.IH" have "whitespace_only (drop (leading_ws s) s)" by simp
    with False show ?thesis by (subst whitespace_only.simps) simp
  qed
qed

lemma leading_ws_trimStart: "leading_ws (trimStart s) = 0"
proof (induction s rule: trimStart.induct)
  case (1 s)
  then show ?case by (subst trimStart.simps) simp
qed

lemma leading_ws_take: "leading_ws (take n s) \<noteq> 0 \<Longrightarrow> leading_ws s \<noteq> 0"
  by (auto simp add: leading_ws_def take_Cons' split: list.splits if_splits)

lemma ws3_lead: "ws3 a b c \<Longrightarrow> \<not> ws1 a \<and> \<not> ws2 a b"
  by (auto simp add: ws1_def ws2_def ws3_def)

lemma ws2_lead: "ws2 a b \<Longrightarrow> \<not> ws1 a"
  by (auto simp add: ws1_def ws2_def)

lemma only_trailing_ws:
  assumes "trailing_ws t = length t" and "t \<noteq> []"
  shows "leading_ws t \<noteq> 0"
proof -
  have "trailing_ws t \<le> 3"
    by (simp add: trailing_ws_def split: list.splits)
  with assms(1) have short: "length t \<le> 3" by simp
  from assms(2) obtain a r where t: "t = a # r" by (cases t) auto
  show ?thesis
  proof (cases r)
    case Nil
    with t assms(1) show ?thesis
      by (auto simp add: trailing_ws_def leading_ws_def split: if_splits)
  next
    case (Cons b r2)
    show ?thesis
    proof (cases r2)
      case Nil
      with t Cons assms(1) show ?thesis
        using ws2_lead [of a b]
        by (auto simp add: trailing_ws_def leading_ws_def split: if_splits)
    next
      case (Cons c r3)
      with short t \<open>r = b # r2\<close> have r3: "r3 = []" by simp
      with t \<open>r = b # r2\<close> Cons assms(1) show ?thesis
        using ws3_lead [of a b c]
        by (auto simp add: trailing_ws_def leading_ws_def split: if_splits)
    qed
  qed
qed

lemma trimEnd_empty: "trimEnd t = [] \<Longrightarrow> leading_ws t = 0 \<Longrightarrow> t = []"
proof (induction t rule: trimEnd.induct)
  case (1 t)
  show ?case
  proof (cases "trailing_ws t = 0")
    case True
    with "1.prems"(1) show ?thesis by (subst (asm) trimEnd.simps) simp
  next
    case False
    let ?t' = "take (length t - trailing_ws t) t"
    from False "1.prems"(1) have "trimEnd ?t' = []"
      by (subst (asm) trimEnd.simps) simp
    moreover have "leading_ws ?t' = 0"
      using leading_ws_take [of "length t - trailing_ws t" t] "1.prems"(2) by blast
    ultimately have "?t' = []" using False "1.IH" by simp
    then have "length t \<le> trailing_ws t \<or> t = []" by simp
    moreover have "trailing_ws t \<le> length (rev t)"
      unfolding trailing_ws_def by (simp split: list.splits)
    ultimately have "trailing_ws t = length t \<or> t = []" by auto
    with only_trailing_ws [of t] "1.prems"(2) show ?thesis by blast
  qed
qed

lemma trim_empty_iff: "trim s = [] \<longleftrightarrow> whitespace_only s"
proof
  assume "trim s = []"
  then have "trimStart s = []"
    using trimEnd_empty [of "trimStart s"] leading_ws_trimStart [of s] by (simp add: trim_def)
  then show "whitespace_only s" by (rule trimStart_empty_whitespace_only)
next
  assume "whitespace_only s"
  then show "trim s = []" by (rule whitespace_only_trim)
qed

section \<open>Sending a blank text\<close>

text \<open>
  C9. In both editors \<^verbatim>\<open>handleSend\<close> returns at once when the text to send is empty
  or white space only: the state it is called in is the state it leaves, so no message is
  appended, no socket is created, the input is kept and the generation flag is not set.
  The text is \<^verbatim>\<open>input\<close> in the polling editor and \<^verbatim>\<open>overrideInput || input\<close> in
  the streaming one.
\<close>

theorem blank_send_changes_nothing:
  assumes "whitespace_only text"
  shows "(input st = text \<longrightarrow> handleSend st = st \<and> step jobId SendClicked st = st)
       \<and> (or_else overrideInput (input cst) = text \<longrightarrow>
            chat_handleSend overrideInput cst = cst \<and> chat_step (Send overrideInput) cst = cst)"
  using whitespace_only_trim [OF assms] by (simp add: handleSend_def chat_handleSend_def)

theorem blank_send_changes_nothing_witness:
  "whitespace_only demo_blank
   \<and> handleSend (demo_mounted\<lparr>input := demo_blank\<rparr>) = demo_mounted\<lparr>input := demo_blank\<rparr>
   \<and> chat_handleSend None (demo_chat\<lparr>input := demo_blank\<rparr>) = demo_chat\<lparr>input := demo_blank\<rparr>
   \<and> chat_handleSend (Some demo_blank) demo_chat = demo_chat"
proof -
  have blank: "whitespace_only demo_blank" by code_simp
  have nonempty: "demo_blank \<noteq> []" by (simp add: demo_blank_def)
  show ?thesis
    using blank nonempty
      blank_send_changes_nothing [OF blank, of "demo_mounted\<lparr>input := demo_blank\<rparr>" "''job-1''"
        None "demo_chat\<lparr>input := demo_blank\<rparr>"]
      blank_send_changes_nothing [OF blank, of "demo_mounted" "''job-1''"
        "Some demo_blank" "demo_chat"]
    by (simp add: or_else_def)
qed

section \<open>Connection errors of the streaming editor\<close>

text \<open>
  C8. \<^verbatim>\<open>socket.onerror\<close> clears the generation flag and appends one assistant message,
  the connection error text, to the messages. It creates no socket and sends nothing: the
  sockets are the ones there were, and the error event leaves their number and what
  each has sent unchanged.
\<close>

theorem connection_error_reported_once:
  "messages (onerror i st) = messages st @ [assistant_says connection_error_text]
   \<and> isGenerating (onerror i st) = False
   \<and> sockets (onerror i st) = sockets st
   \<and> length (sockets (chat_step (Failed i) st)) = length (sockets st)
   \<and> map sent (sockets (chat_step (Failed i) st)) = map sent (sockets st)"
proof -
  have handler: "onerror i st
      = st\<lparr>messages := messages st @ [assistant_says connection_error_text],
            isGenerating := False, console := console st @ [SocketError]\<rparr>"
    by (simp add: onerror_def editor_defs)
  have event: "sockets (chat_step (Failed i) st)
      = (if i < length (sockets st) \<and> readyState (sockets st ! i) \<noteq> CLOSED
         then (sockets st)[i := (sockets st ! i)\<lparr>readyState := CLOSED\<rparr>]
         else sockets st)"
    by (simp add: onerror_def editor_defs update_socket_def)
  have unsent: "map sent (sockets (chat_step (Failed i) st)) = map sent (sockets st)"
    unfolding event by (simp add: map_update list_update_same_conv)
  have "length (sockets (chat_step (Failed i) st)) = length (sockets st)"
    unfolding event by simp
  with unsent show ?thesis
    by (simp add: handler)
qed

section \<open>The deadline timer\<close>

text \<open>
  No poll touches the deadline timer or the snapshot its callback closed over, and in an
  editor whose effect ran on the first render (the closed-over \<^verbatim>\<open>jobStatus\<close> is
  null) the callback appends the timeout message whatever the job has done since.
\<close>

lemma poll_keeps_deadline:
  "timeoutId (snd (pollJobStatus jobId sr pr st)) = timeoutId st
   \<and> closureJobStatus (snd (pollJobStatus jobId sr pr st)) = closureJobStatus st"
  by (simp add: pollJobStatus_def editor_defs Let_def split: Response.split option.split)

lemma tick_keeps_deadline:
  "timeoutId (step jobId (IntervalTick sr pr) st) = timeoutId st
   \<and> closureJobStatus (step jobId (IntervalTick sr pr) st) = closureJobStatus st"
proof (cases "pollJobStatus jobId sr pr st")
  case (Pair shouldStop st')
  with poll_keeps_deadline [of jobId sr pr st] show ?thesis
    by (simp add: intervalCallback_def clearInterval_def)
qed

lemma deadline_reports_timeout:
  assumes "timeoutId st \<noteq> None" and "closureJobStatus st = None"
  shows "messages (step jobId DeadlineFired st) = messages st @ [assistant_says timeout_text]"
  using assms by (auto simp add: timeoutCallback_def editor_defs)

text \<open>
  C1. The interval tick that sees the job failed clears the interval timer only: the
  deadline timer stays armed. When it fires, its callback tests the \<^verbatim>\<open>jobStatus\<close> of
  the render that armed it (null in a fresh editor), so the timeout message is appended
  after the failure message.
\<close>

theorem timeout_message_follows_failure_message:
  "intervalId (run ''job-1'' [IntervalTick (Resolved (Some demo_failed)) (Rejected None)] demo_mounted)
     = None
   \<and> timeoutId (run ''job-1'' [IntervalTick (Resolved (Some demo_failed)) (Rejected None)] demo_mounted)
     = Some 300000
   \<and> messages (run ''job-1''
        [IntervalTick (Resolved (Some demo_failed)) (Rejected None), DeadlineFired] demo_mounted)
     = [demo_user_message, assistant_says (progress_line demo_failed),
        assistant_says (failure_text demo_failed), assistant_says timeout_text]"
  by (simp add: demo_mounted_eq intervalCallback_def pollJobStatus_def timeoutCallback_def
      editor_defs coalesce_ack [of _ "[demo_user_message]", simplified]
      demo_failed_def [THEN arg_cong, of status])

section \<open>Frames of the streaming editor\<close>

lemma chat_run_append: "chat_run (xs @ ys) st = chat_run ys (chat_run xs st)"
  by (induction xs arbitrary: st) simp_all

lemma onmessage_fragment:
  assumes "i < length (sockets st)" and "data \<noteq> END_OF_STREAM"
  shows "length (sockets (onmessage i data st)) = length (sockets st)"
    and "accumulatedResponse (sockets (onmessage i data st) ! i)
           = accumulatedResponse (sockets st ! i) @ data"
    and "readyState (sockets (onmessage i data st) ! i) = readyState (sockets st ! i)"
    and "isGenerating (onmessage i data st) = isGenerating st"
    and "messages (onmessage i data st)
           = (if messages st \<noteq> [] \<and> role (last (messages st)) = assistant
              then butlast (messages st) else messages st)
             @ [assistant_says (accumulatedResponse (sockets st ! i) @ data)]"
  using assms by (simp_all add: onmessage_def update_socket_def editor_defs Let_def)

lemma frames_accumulate:
  assumes "i < length (sockets st)" and "readyState (sockets st ! i) = OPEN"
    and "\<forall>f \<in> set fs. f \<noteq> END_OF_STREAM"
  shows "i < length (sockets (chat_run (map (Frame i) fs) st))
       \<and> readyState (sockets (chat_run (map (Frame i) fs) st) ! i) = OPEN
       \<and> isGenerating (chat_run (map (Frame i) fs) st) = isGenerating st
       \<and> accumulatedResponse (sockets (chat_run (map (Frame i) fs) st) ! i)
           = accumulatedResponse (sockets st ! i) @ concat fs
       \<and> messages (chat_run (map (Frame i) fs) st)
           = (if fs = [] then messages st
              else (if messages st \<noteq> [] \<and> role (last (messages st)) = assistant
                    then butlast (messages st) else messages st)
                   @ [assistant_says (accumulatedResponse (sockets st ! i) @ concat fs)])"
  using assms
proof (induction fs arbitrary: st)
  case Nil
  then show ?case by simp
next
  case (Cons f fs)
  let ?st1 = "onmessage i f st"
  let ?base = "if messages st \<noteq> [] \<and> role (last (messages st)) = assistant
               then butlast (messages st) else messages st"
  from Cons.prems have f: "f \<noteq> END_OF_STREAM" and rest: "\<forall>g \<in> set fs. g \<noteq> END_OF_STREAM"
    by simp_all
  note frag = onmessage_fragment [OF Cons.prems(1) f]
  have run: "chat_run (map (Frame i) (f # fs)) st = chat_run (map (Frame i) fs) ?st1"
    using Cons.prems(1,2) by simp
  have len: "i < length (sockets ?st1)" and "open": "readyState (sockets ?st1 ! i) = OPEN"
    using frag Cons.prems by simp_all
  have msgs1: "messages ?st1 = ?base @ [assistant_says (accumulatedResponse (sockets st ! i) @ f)]"
    by (rule frag(5))
  have base1: "(if messages ?st1 \<noteq> [] \<and> role (last (messages ?st1)) = assistant
                then butlast (messages ?st1) else messages ?st1) = ?base"
    unfolding msgs1 by (simp add: assistant_says_def)
  note IH = Cons.IH [OF len "open" rest, unfolded base1 frag(2) frag(4)]
  show ?case
    unfolding run using IH msgs1 by auto
qed

lemma onmessage_sentinel:
  assumes "i < length (sockets st)"
  shows "messages (onmessage i END_OF_STREAM st) = messages st"
    and "isGenerating (onmessage i END_OF_STREAM st) = False"
    and "readyState (sockets (onmessage i END_OF_STREAM st) ! i) = CLOSING"
    and "length (sockets (onmessage i END_OF_STREAM st)) = length (sockets st)"
  using assms by (simp_all add: onmessage_def update_socket_def editor_defs)

text \<open>
  C6. For an open socket and frames none of which is the sentinel: the frames are appended
  to the socket's \<^verbatim>\<open>accumulatedResponse\<close> in the order they arrive; the messages end
  with one assistant message holding the accumulated text, which took the place of the
  last message when that was an assistant message and was appended otherwise. The
  sentinel after them leaves the messages as they are, clears the generation flag and
  closes the socket, which receives no frame afterwards. After the prompt \<^verbatim>\<open>hi\<close> the
  frames \<^verbatim>\<open>Hel\<close>, \<^verbatim>\<open>lo\<close>, \<^verbatim>\<open> world\<close> and the sentinel leave the user message and one
  assistant message \<^verbatim>\<open>Hello world\<close>.
\<close>

theorem streaming_accumulates_fragments:
  assumes "i < length (sockets st)" and "readyState (sockets st ! i) = OPEN"
    and "\<forall>f \<in> set fs. f \<noteq> END_OF_STREAM"
  shows "accumulatedResponse (sockets (chat_run (map (Frame i) fs) st) ! i)
           = accumulatedResponse (sockets st ! i) @ concat fs
       \<and> messages (chat_run (map (Frame i) fs) st)
           = (if fs = [] then messages st
              else (if messages st \<noteq> [] \<and> role (last (messages st)) = assistant
                    then butlast (messages st) else messages st)
                   @ [assistant_says (accumulatedResponse (sockets st ! i) @ concat fs)])
       \<and> messages (chat_run (map (Frame i) fs @ [Frame i END_OF_STREAM]) st)
           = messages (chat_run (map (Frame i) fs) st)
       \<and> isGenerating (chat_run (map (Frame i) fs @ [Frame i END_OF_STREAM]) st) = False
       \<and> readyState (sockets (chat_run (map (Frame i) fs @ [Frame i END_OF_STREAM]) st) ! i) = CLOSING
       \<and> chat_step (Frame i late) (chat_run (map (Frame i) fs @ [Frame i END_OF_STREAM]) st)
           = chat_run (map (Frame i) fs @ [Frame i END_OF_STREAM]) st"
proof -
  let ?st' = "chat_run (map (Frame i) fs) st"
  note acc = frames_accumulate [OF assms]
  then have len: "i < length (sockets ?st')" and "open": "readyState (sockets ?st' ! i) = OPEN"
    by simp_all
  have last: "chat_run (map (Frame i) fs @ [Frame i END_OF_STREAM]) st = onmessage i END_OF_STREAM ?st'"
    using len "open" by (simp add: chat_run_append)
  note sent = onmessage_sentinel [OF len]
  show ?thesis
    using acc sent by (simp add: last)
qed

lemma trim_hi: "trim ''hi'' = ''hi''"
  by code_simp

lemma demo_chat_eq:
  "demo_chat =
     \<lparr>messages = [user_says ''hi''], input = [], isGenerating = True, console = [],
      sockets = [\<lparr>textToSend = ''hi'', accumulatedResponse = [], readyState = OPEN,
                  sent = [''hi'']\<rparr>]\<rparr>"
  by (simp add: demo_chat_def initial_chat_def chat_handleSend_def trim_hi or_else_def truthy_def
      editor_defs new_WebSocket_def onopen_def update_socket_def Let_def)

theorem streaming_accumulates_fragments_witness:
  "messages (chat_run (map (Frame 0) [''Hel'', ''lo'', '' world''] @ [Frame 0 END_OF_STREAM]) demo_chat)
     = [user_says ''hi'', assistant_says ''Hello world'']
   \<and> accumulatedResponse
        (sockets (chat_run (map (Frame 0) [''Hel'', ''lo'', '' world'']) demo_chat) ! 0)
     = ''Hello world''
   \<and> isGenerating (chat_run (map (Frame 0) [''Hel'', ''lo'', '' world''] @ [Frame 0 END_OF_STREAM]) demo_chat) = False
   \<and> readyState (sockets (chat_run (map (Frame 0) [''Hel'', ''lo'', '' world''] @ [Frame 0 END_OF_STREAM]) demo_chat) ! 0) = CLOSING"
proof -
  have len: "0 < length (sockets demo_chat)" by (simp add: demo_chat_eq)
  have "open": "readyState (sockets demo_chat ! 0) = OPEN" by (simp add: demo_chat_eq)
  have frames: "\<forall>f \<in> set [''Hel'', ''lo'', '' world'']. f \<noteq> END_OF_STREAM"
    by (simp add: END_OF_STREAM_def)
  have start: "messages demo_chat = [user_says ''hi'']"
    "accumulatedResponse (sockets demo_chat ! 0) = []"
    by (simp_all add: demo_chat_eq)
  from streaming_accumulates_fragments [OF len "open" frames] show ?thesis
    by (simp add: start user_says_def)
qed

section \<open>Single polls\<close>


lemma demo_status:
  "status demo_pending = pending" "status demo_processing = processing"
  "status demo_completed = completed" "status demo_completed_without_id = completed"
  "status demo_failed = failed"
  "portfolio_id demo_completed = Some ''pf-1''" "portfolio_id demo_completed_without_id = None"
  "portfolio_id demo_failed = None" "portfolio_id demo_pending = None"
  "portfolio_id demo_processing = None"
  by (simp_all add: demo_pending_def demo_processing_def demo_completed_def
      demo_completed_without_id_def demo_failed_def)

lemmas coalesce_demo_ack = coalesce_ack [of _ "[demo_user_message]", simplified]

text \<open>What one call of \<^verbatim>\<open>pollJobStatus\<close> does on an error and on a failed job.\<close>

lemma poll_job_not_found:
  "pollJobStatus jobId (Rejected (Some 404)) pr st
     = (True, st\<lparr>messages := messages st @ [assistant_says job_not_found_text],
                   isGenerating := False,
                   console := console st @ [ErrorPollingJobStatus],
                   requests := requests st @ [GET (''/jobs/'' @ jobId)]\<rparr>)"
  by (simp add: pollJobStatus_def editor_defs)

lemma poll_transient_error:
  "code \<noteq> Some 404 \<Longrightarrow>
   pollJobStatus jobId (Rejected code) pr st
     = (False, st\<lparr>console := console st @ [ErrorPollingJobStatus],
                    requests := requests st @ [GET (''/jobs/'' @ jobId)]\<rparr>)"
  by (simp add: pollJobStatus_def editor_defs)

lemma poll_failed:
  "status sd = failed \<Longrightarrow>
   pollJobStatus jobId (Resolved (Some sd)) pr st
     = (True, st\<lparr>messages := coalesce sd (messages st) @ [assistant_says (failure_text sd)],
                   isGenerating := False, jobStatus := Some sd,
                   requests := requests st @ [GET (''/jobs/'' @ jobId)]\<rparr>)"
  by (simp add: pollJobStatus_def editor_defs)

lemma failure_text_includes_message:
  "error sd = Some e \<Longrightarrow> message e \<noteq> [] \<Longrightarrow> str_includes (failure_text sd) (message e)"
proof -
  assume "error sd = Some e" and "message e \<noteq> []"
  then have "failure_text sd
      = (cross_mark @ '' Portfolio generation failed.'' @ NL @ NL @ ''Error: '') @ message e
        @ (NL @ NL @ ''Please try uploading your resume again.'')"
    by (simp add: failure_text_def error_message_def or_else_def)
  then show ?thesis
    unfolding str_includes_def by (metis sublist_appendI)
qed

text \<open>A snapshot with status cancelled takes the last branch: the poll does not stop.\<close>

lemma poll_cancelled:
  "status sd = cancelled \<Longrightarrow>
   pollJobStatus jobId (Resolved (Some sd)) pr st
     = (False, st\<lparr>messages := coalesce sd (messages st), jobStatus := Some sd,
                    requests := requests st @ [GET (''/jobs/'' @ jobId)]\<rparr>)"
  by (simp add: pollJobStatus_def editor_defs)

lemma cancelled_tick_keeps_interval:
  "intervalId (step ''job-1'' (IntervalTick (Resolved (Some demo_cancelled)) (Rejected None))
     demo_mounted) = Some 2000"
proof -
  have "status demo_cancelled = cancelled" by (simp add: demo_cancelled_def)
  then show ?thesis
    by (simp add: poll_cancelled intervalCallback_def demo_mounted_eq)
qed

lemma tick_stops_on_stop_signal:
  assumes "intervalId st \<noteq> None" and "fst (pollJobStatus jobId sr pr st)"
  shows "step jobId (IntervalTick sr pr) st = clearInterval (snd (pollJobStatus jobId sr pr st))"
proof (cases "pollJobStatus jobId sr pr st")
  case (Pair shouldStop st')
  with assms show ?thesis by (auto simp add: intervalCallback_def)
qed

section \<open>Results that are not ready\<close>

text \<open>
  When the snapshot is completed and has a portfolio id, and the portfolio request is
  rejected with status 202 or 404, the poll returns \<open>False\<close> (keep polling) and leaves the
  state as the status part of the tick made it: the coalesced messages (as many as
  before, so no message is appended), the new snapshot and the two requests. The
  generation flag and the console are untouched, and an interval tick with that answer
  keeps the interval timer, so the next tick asks again. Whatever the portfolio request
  answers, the only message such a poll can append is the completion message. An HTTP 404
  is such a rejection.
\<close>


lemma result_not_ready_is_not_fatal:
  assumes "status sd = completed" and "truthy (portfolio_id sd)"
    and "code = Some 202 \<or> code = Some 404"
  shows "pollJobStatus jobId (Resolved (Some sd)) (Rejected code) st
           = (False, st\<lparr>messages := coalesce sd (messages st), jobStatus := Some sd,
                          requests := requests st @ [GET (''/jobs/'' @ jobId),
                                                     GET (''/portfolio/'' @ jobId)]\<rparr>)
       \<and> length (coalesce sd (messages st)) = length (messages st)
       \<and> intervalId (step jobId (IntervalTick (Resolved (Some sd)) (Rejected code)) st)
           = intervalId st
       \<and> (messages (snd (pollJobStatus jobId (Resolved (Some sd)) portfolioResponse st))
             = coalesce sd (messages st)
          \<or> messages (snd (pollJobStatus jobId (Resolved (Some sd)) portfolioResponse st))
             = coalesce sd (messages st) @ [assistant_says completion_text])"
proof -
  from assms have poll: "pollJobStatus jobId (Resolved (Some sd)) (Rejected code) st
      = (False, st\<lparr>messages := coalesce sd (messages st), jobStatus := Some sd,
                     requests := requests st @ [GET (''/jobs/'' @ jobId),
                                                GET (''/portfolio/'' @ jobId)]\<rparr>)"
    by (auto simp add: pollJobStatus_def editor_defs)
  then have tick: "intervalId (step jobId (IntervalTick (Resolved (Some sd)) (Rejected code)) st)
      = intervalId st"
    by (simp add: intervalCallback_def)
  from assms(1,2) have any: "messages (snd (pollJobStatus jobId (Resolved (Some sd)) portfolioResponse st))
        = coalesce sd (messages st)
      \<or> messages (snd (pollJobStatus jobId (Resolved (Some sd)) portfolioResponse st))
        = coalesce sd (messages st) @ [assistant_says completion_text]"
    by (simp add: pollJobStatus_def editor_defs Let_def split: Response.split option.split)
  from poll tick any show ?thesis
    by (simp add: coalesce_length)
qed

lemma result_not_ready_is_not_fatal_witness:
  "pollJobStatus ''job-1'' (Resolved (Some demo_completed)) (Rejected (Some 404)) demo_mounted
     = (False, demo_mounted
          \<lparr>messages := [demo_user_message, assistant_says (progress_line demo_completed)],
           jobStatus := Some demo_completed,
           requests := [GET ''/jobs/job-1'', GET ''/portfolio/job-1'']\<rparr>)
   \<and> intervalId (step ''job-1'' (IntervalTick (Resolved (Some demo_completed)) (Rejected (Some 202)))
        demo_mounted) = Some 2000"
proof -
  have completed: "status demo_completed = completed" by (simp add: demo_status)
  have present: "truthy (portfolio_id demo_completed)" by (simp add: demo_status truthy_def)
  have not_found: "Some 404 = Some 202 \<or> Some 404 = Some (404::nat)" by simp
  have accepted: "Some 202 = Some 202 \<or> Some 202 = Some (404::nat)" by simp
  from result_not_ready_is_not_fatal [OF completed present not_found, of "''job-1''" demo_mounted]
    result_not_ready_is_not_fatal [OF completed present accepted, of "''job-1''" demo_mounted]
  show ?thesis
    by (simp add: demo_mounted_eq coalesce_demo_ack)
qed

text \<open>
  C4. An HTTP 202 answer of the portfolio request is not a rejection: it resolves, the
  test for 202 in the \<^verbatim>\<open>catch\<close> is never reached, and the poll of a completed job
  takes the body of the 202 answer for the portfolio. It stores the
  body, appends the completion message, clears the generation flag and returns \<open>True\<close>,
  so the interval callback clears the timer and the result is not asked for again.
\<close>

theorem accepted_response_taken_as_portfolio:
  "axios_settle 202 (Some demo_accepted_body) = Resolved (Some demo_accepted_body)
   \<and> pollJobStatus ''job-1'' (Resolved (Some demo_completed))
        (axios_settle 202 (Some demo_accepted_body)) demo_mounted
     = (True, demo_mounted
          \<lparr>messages := [demo_user_message, assistant_says (progress_line demo_completed),
                         assistant_says completion_text],
           isGenerating := False, console := [PortfolioReceived],
           jobStatus := Some demo_completed, portfolioData := Some demo_accepted_body,
           requests := [GET ''/jobs/job-1'', GET ''/portfolio/job-1'']\<rparr>)
   \<and> intervalId (step ''job-1''
        (IntervalTick (Resolved (Some demo_completed)) (axios_settle 202 (Some demo_accepted_body)))
        demo_mounted) = None"
proof -
  have settled: "axios_settle 202 (Some demo_accepted_body) = Resolved (Some demo_accepted_body)"
    by (simp add: axios_settle_def)
  have poll: "pollJobStatus ''job-1'' (Resolved (Some demo_completed))
        (Resolved (Some demo_accepted_body)) demo_mounted
     = (True, demo_mounted
          \<lparr>messages := [demo_user_message, assistant_says (progress_line demo_completed),
                         assistant_says completion_text],
           isGenerating := False, console := [PortfolioReceived],
           jobStatus := Some demo_completed, portfolioData := Some demo_accepted_body,
           requests := [GET ''/jobs/job-1'', GET ''/portfolio/job-1'']\<rparr>)"
    by (simp add: pollJobStatus_def editor_defs demo_mounted_eq coalesce_demo_ack demo_status
        truthy_def)
  then have "intervalId (step ''job-1''
        (IntervalTick (Resolved (Some demo_completed)) (Resolved (Some demo_accepted_body)))
        demo_mounted) = None"
    by (simp add: intervalCallback_def clearInterval_def demo_mounted_eq)
  with settled poll show ?thesis by simp
qed

section \<open>When the result is fetched\<close>

text \<open>
  C10. A poll requests \<^verbatim>\<open>/portfolio/{jobId}\<close> exactly when the status request resolved
  with a snapshot whose status is completed and whose portfolio id is present (and not
  empty); every other poll makes the status request only. On a completed snapshot
  without portfolio id the poll returns \<open>False\<close>, appends nothing to the messages (they
  are coalesced only) and an interval tick keeps the interval timer.
\<close>

theorem result_fetch_needs_completed_and_portfolio_id:
  "requests (snd (pollJobStatus jobId statusResponse portfolioResponse st))
     = requests st @ GET (''/jobs/'' @ jobId)
         # (case statusResponse of
              Resolved (Some sd) \<Rightarrow>
                if status sd = completed \<and> truthy (portfolio_id sd)
                then [GET (''/portfolio/'' @ jobId)] else []
            | _ \<Rightarrow> [])
   \<and> (status snapshot = completed \<and> portfolio_id snapshot = None \<longrightarrow>
        pollJobStatus jobId (Resolved (Some snapshot)) portfolioResponse st
          = (False, st\<lparr>messages := coalesce snapshot (messages st), jobStatus := Some snapshot,
                         requests := requests st @ [GET (''/jobs/'' @ jobId)]\<rparr>)
        \<and> intervalId (step jobId (IntervalTick (Resolved (Some snapshot)) portfolioResponse) st)
            = intervalId st)"
proof -
  have "requests (snd (pollJobStatus jobId statusResponse portfolioResponse st))
     = requests st @ GET (''/jobs/'' @ jobId)
         # (case statusResponse of
              Resolved (Some sd) \<Rightarrow>
                if status sd = completed \<and> truthy (portfolio_id sd)
                then [GET (''/portfolio/'' @ jobId)] else []
            | _ \<Rightarrow> [])"
    by (simp add: pollJobStatus_def editor_defs Let_def split: Response.split option.split)
  moreover have "status snapshot = completed \<and> portfolio_id snapshot = None \<longrightarrow>
        pollJobStatus jobId (Resolved (Some snapshot)) portfolioResponse st
          = (False, st\<lparr>messages := coalesce snapshot (messages st), jobStatus := Some snapshot,
                         requests := requests st @ [GET (''/jobs/'' @ jobId)]\<rparr>)
        \<and> intervalId (step jobId (IntervalTick (Resolved (Some snapshot)) portfolioResponse) st)
            = intervalId st"
    by (simp add: pollJobStatus_def intervalCallback_def editor_defs truthy_def)
  ultimately show ?thesis by blast
qed

theorem result_fetch_needs_completed_and_portfolio_id_witness:
  "pollJobStatus ''job-1'' (Resolved (Some demo_completed_without_id)) (Rejected None) demo_mounted
     = (False, demo_mounted
          \<lparr>messages := [demo_user_message,
                         assistant_says (progress_line demo_completed_without_id)],
           jobStatus := Some demo_completed_without_id,
           requests := [GET ''/jobs/job-1'']\<rparr>)
   \<and> intervalId (step ''job-1'' (IntervalTick (Resolved (Some demo_completed_without_id)) (Rejected None))
        demo_mounted) = Some 2000
   \<and> requests (snd (pollJobStatus ''job-1'' (Resolved (Some demo_completed)) (Rejected None)
        demo_mounted)) = [GET ''/jobs/job-1'', GET ''/portfolio/job-1'']"
  using result_fetch_needs_completed_and_portfolio_id
      [of "''job-1''" "Resolved (Some demo_completed)" "Rejected None" demo_mounted
        demo_completed_without_id]
  by (simp add: demo_status truthy_def demo_mounted_eq coalesce_demo_ack)

section \<open>Coalescing of progress updates\<close>

text \<open>
  C3. Every poll builds the progress line of the snapshot it fetched, but the updater
  puts it into the messages only where the last message includes \<^verbatim>\<open>analyzing\<close>, which
  the progress lines themselves do not. After the tick that replaced the acknowledgement by
  the progress line of a pending job, the tick that fetches a processing job leaves that
  first progress line where it is, although the two lines differ.
\<close>


theorem prior_progress_update_is_not_replaced:
  "messages (run ''job-1'' [IntervalTick (Resolved (Some demo_pending)) (Rejected None)] demo_mounted)
     = [demo_user_message, assistant_says (progress_line demo_pending)]
   \<and> messages (run ''job-1''
        [IntervalTick (Resolved (Some demo_pending)) (Rejected None),
         IntervalTick (Resolved (Some demo_processing)) (Rejected None)] demo_mounted)
     = [demo_user_message, assistant_says (progress_line demo_pending)]
   \<and> progress_line demo_processing \<noteq> progress_line demo_pending"
proof -
  have differ: "progress_line demo_processing \<noteq> progress_line demo_pending"
    by code_simp
  have kept: "coalesce sd [demo_user_message, assistant_says (progress_line demo_pending)]
      = [demo_user_message, assistant_says (progress_line demo_pending)]" for sd
    using progress_line_pending_no_analyzing by (simp add: coalesce_def assistant_says_def)
  show ?thesis
    using differ
    by (simp add: demo_mounted_eq intervalCallback_def pollJobStatus_def editor_defs
        coalesce_demo_ack kept demo_status truthy_def)
qed

text \<open>
  What the updater does on a poll that resolves with a snapshot that is not failed and not
  completed with a portfolio id: the last message is replaced in place by the progress
  line (status text, percentage, stage) when it is an assistant message whose text
  includes \<^verbatim>\<open>analyzing\<close>, as the initial acknowledgement does; otherwise the messages
  are left as they are. No message is appended, and the same snapshot applied twice
  leaves the messages of applying it once.
\<close>


lemma progress_replaces_acknowledgement_only:
  assumes "status sd \<noteq> failed" and "\<not> (status sd = completed \<and> truthy (portfolio_id sd))"
  shows "messages (snd (pollJobStatus jobId (Resolved (Some sd)) pr st))
           = (if messages st \<noteq> [] \<and> role (last (messages st)) = assistant
                 \<and> str_includes (content (last (messages st))) ''analyzing''
              then butlast (messages st) @ [assistant_says (progress_line sd)]
              else messages st)
       \<and> length (messages (snd (pollJobStatus jobId (Resolved (Some sd)) pr st)))
           = length (messages st)
       \<and> (messages st = ms @ [assistant_says (acknowledgement_text attachedFile jobId')] \<longrightarrow>
            messages (snd (pollJobStatus jobId (Resolved (Some sd)) pr st))
              = ms @ [assistant_says (progress_line sd)])
       \<and> messages (snd (pollJobStatus jobId (Resolved (Some sd)) pr'
                     (snd (pollJobStatus jobId (Resolved (Some sd)) pr st))))
           = messages (snd (pollJobStatus jobId (Resolved (Some sd)) pr st))"
proof -
  have poll: "messages (snd (pollJobStatus jobId (Resolved (Some sd)) p s)) = coalesce sd (messages s)"
    for p :: "'a option Response" and s :: "'a JobEditor"
    using assms by (auto simp add: pollJobStatus_def editor_defs)
  show ?thesis
    unfolding poll
    by (auto simp add: coalesce_length coalesce_idem coalesce_ack) (simp_all add: coalesce_def)
qed

lemma progress_replaces_acknowledgement_only_witness:
  "messages (snd (pollJobStatus ''job-1'' (Resolved (Some demo_pending)) (Rejected None) demo_mounted))
     = [demo_user_message, assistant_says (progress_line demo_pending)]
   \<and> messages (snd (pollJobStatus ''job-1'' (Resolved (Some demo_pending)) (Rejected None)
        (snd (pollJobStatus ''job-1'' (Resolved (Some demo_pending)) (Rejected None) demo_mounted))))
     = [demo_user_message, assistant_says (progress_line demo_pending)]"
proof -
  have not_failed: "status demo_pending \<noteq> failed" by (simp add: demo_status)
  have not_ready: "\<not> (status demo_pending = completed \<and> truthy (portfolio_id demo_pending))"
    by (simp add: demo_status)
  have ack: "messages demo_mounted
      = [demo_user_message] @ [assistant_says (acknowledgement_text (Some ''resume.pdf'') ''job-1'')]"
    by (simp add: demo_mounted_eq)
  note inst = progress_replaces_acknowledgement_only [OF not_failed not_ready,
      of "''job-1''" "Rejected None" demo_mounted "[demo_user_message]" "Some ''resume.pdf''"
        "''job-1''" "Rejected None"]
  from inst ack
  have once: "messages (snd (pollJobStatus ''job-1'' (Resolved (Some demo_pending)) (Rejected None)
        demo_mounted)) = [demo_user_message] @ [assistant_says (progress_line demo_pending)]"
    by blast
  from inst
  have twice: "messages (snd (pollJobStatus ''job-1'' (Resolved (Some demo_pending)) (Rejected None)
        (snd (pollJobStatus ''job-1'' (Resolved (Some demo_pending)) (Rejected None) demo_mounted))))
      = messages (snd (pollJobStatus ''job-1'' (Resolved (Some demo_pending)) (Rejected None)
          demo_mounted))"
    by blast
  from once twice show ?thesis by simp
qed

section \<open>When polling stops\<close>

text \<open>
  C2, as stated, fails: a tick that sees the job completed while the portfolio request
  is answered 404 keeps the interval timer, and the next tick polls the status again; a
  tick that sees the job cancelled keeps the interval timer as well.
\<close>

theorem completed_snapshot_keeps_polling:
  "status demo_completed = completed
   \<and> intervalId (run ''job-1''
        [IntervalTick (Resolved (Some demo_completed)) (Rejected (Some 404))] demo_mounted)
     = Some 2000
   \<and> requests (run ''job-1''
        [IntervalTick (Resolved (Some demo_completed)) (Rejected (Some 404)),
         IntervalTick (Resolved (Some demo_completed)) (Rejected (Some 404))] demo_mounted)
     = [GET ''/jobs/job-1'', GET ''/portfolio/job-1'', GET ''/jobs/job-1'', GET ''/portfolio/job-1'']
   \<and> status demo_cancelled = cancelled
   \<and> intervalId (run ''job-1''
        [IntervalTick (Resolved (Some demo_cancelled)) (Rejected None)] demo_mounted)
     = Some 2000"
proof -
  have cancelled: "intervalId (run ''job-1''
      [IntervalTick (Resolved (Some demo_cancelled)) (Rejected None)] demo_mounted) = Some 2000"
    using cancelled_tick_keeps_interval by simp
  have "status demo_cancelled = cancelled" by (simp add: demo_cancelled_def)
  with cancelled show ?thesis
    by (simp add: demo_mounted_eq intervalCallback_def pollJobStatus_def editor_defs demo_status
        truthy_def)
qed

subsection \<open>The parts of a poll\<close>

text \<open>
  The three parts put together are \<^verbatim>\<open>pollJobStatus\<close>, no part touches the interval
  timer, and a tick of the runs above is the run in which both requests of the poll are
  answered before anything else happens.
\<close>

lemma pollJobStatus_stages:
  "pollJobStatus jobId statusResponse portfolioResponse st =
     (case poll_status jobId statusResponse (poll_start jobId st) of
        (None, st4) \<Rightarrow> poll_portfolio portfolioResponse st4
      | (Some shouldStop, st') \<Rightarrow> (shouldStop, st'))"
  by (simp add: pollJobStatus_def poll_status_def poll_start_def poll_portfolio_def Let_def
      split: Response.split option.split)

lemma interval_poll_start: "intervalId (poll_start jobId st) = intervalId st"
  by (simp add: poll_start_def api_get_def)

lemma interval_poll_status: "intervalId (snd (poll_status jobId sr st)) = intervalId st"
  by (simp add: poll_status_def editor_defs Let_def split: Response.split option.split)

lemma interval_poll_portfolio: "intervalId (snd (poll_portfolio pr st)) = intervalId st"
  by (simp add: poll_portfolio_def editor_defs split: Response.split option.split)

lemma interval_settle: "intervalId st = None \<Longrightarrow> intervalId (settle who b st) = None"
  by (simp add: settle_def clearInterval_def)

lemma cleared_step:
  assumes "intervalId st = None" and "is_poll_event e"
  shows "intervalId (fst (async_step jobId e (st, polls))) = None
       \<and> length (snd (async_step jobId e (st, polls))) = length polls"
proof (cases e)
  case (StatusAnswered k sr)
  obtain r st' where r: "poll_status jobId sr st = (r, st')" by (cases "poll_status jobId sr st")
  with interval_poll_status [of jobId sr st] assms(1) have "intervalId st' = None" by simp
  with r StatusAnswered assms(1) show ?thesis
    by (cases r) (simp_all add: interval_settle)
next
  case (PortfolioAnswered k pr)
  obtain b st' where r: "poll_portfolio pr st = (b, st')" by (cases "poll_portfolio pr st")
  with interval_poll_portfolio [of pr st] assms(1) have "intervalId st' = None" by simp
  with r PortfolioAnswered assms(1) show ?thesis
    by (simp add: interval_settle)
qed (use assms in simp_all)

lemma idle_step:
  assumes "intervalId st = None" and "list_all has_returned polls" and "is_poll_event e"
  shows "async_step jobId e (st, polls) = (st, polls)"
proof -
  have settled: "snd (polls ! k) \<noteq> AwaitingStatus \<and> snd (polls ! k) \<noteq> AwaitingPortfolio"
    if "k < length polls" for k
  proof -
    from assms(2) that have "has_returned (polls ! k)" by (simp add: list_all_length)
    then show ?thesis by (cases "polls ! k" rule: has_returned.cases) simp_all
  qed
  show ?thesis
    using assms(1,3) settled by (cases e) auto
qed

lemma cleared_run:
  assumes "intervalId st = None" and "list_all is_poll_event later"
  shows "intervalId (fst (async_run jobId later (st, polls))) = None
       \<and> length (snd (async_run jobId later (st, polls))) = length polls"
  using assms
proof (induction later arbitrary: st polls)
  case Nil
  then show ?case by simp
next
  case (Cons e es)
  obtain st' polls' where s: "async_step jobId e (st, polls) = (st', polls')"
    by (cases "async_step jobId e (st, polls)")
  with cleared_step [of st e jobId polls] Cons.prems
  have "intervalId st' = None" and "length polls' = length polls" by simp_all
  with Cons.IH [of st' polls'] Cons.prems s show ?case by simp
qed

lemma idle_run:
  assumes "intervalId st = None" and "list_all has_returned polls"
    and "list_all is_poll_event later"
  shows "async_run jobId later (st, polls) = (st, polls)"
  using assms(3)
proof (induction later)
  case Nil
  then show ?case by simp
next
  case (Cons e es)
  with idle_step [OF assms(1,2), of e jobId] show ?case by simp
qed

lemma atomic_tick_is_a_run:
  "fst (async_run jobId
          [TimerFired, StatusAnswered (length polls) statusResponse,
           PortfolioAnswered (length polls) portfolioResponse] (st, polls))
     = step jobId (IntervalTick statusResponse portfolioResponse) st"
proof (cases "intervalId st = None")
  case True
  then show ?thesis by simp
next
  case False
  obtain r st' where r: "poll_status jobId statusResponse (poll_start jobId st) = (r, st')"
    by (cases "poll_status jobId statusResponse (poll_start jobId st)")
  show ?thesis
  proof (cases r)
    case None
    obtain b st'' where b: "poll_portfolio portfolioResponse st' = (b, st'')"
      by (cases "poll_portfolio portfolioResponse st'")
    with False r None show ?thesis
      by (auto simp add: intervalCallback_def pollJobStatus_stages settle_def nth_append)
  next
    case (Some b)
    with False r show ?thesis
      by (auto simp add: intervalCallback_def pollJobStatus_stages settle_def nth_append)
  qed
qed

text \<open>
  C2, amended. For a poll called by the interval callback: when the status request
  resolves with a failed snapshot the interval timer is cleared; when it resolves with a
  snapshot that is completed with a portfolio id the poll waits for the portfolio and the
  timer stays live; when the portfolio request then resolves with a body the timer is
  cleared, and when it is rejected the timer stays as it is. Once the timer is cleared,
  ticks and answers leave it cleared and no tick calls a poll; when no poll is awaiting
  an answer any more, ticks and answers change nothing at all. A poll that was called
  before the timer was cleared is not cancelled: its answers are still applied.
\<close>

theorem stop_signal_clears_interval:
  "(k < length polls \<and> polls ! k = (ByInterval, AwaitingStatus) \<and> status sd = failed \<longrightarrow>
      intervalId (fst (async_step jobId (StatusAnswered k (Resolved (Some sd))) (st, polls)))
        = None)
   \<and> (k < length polls \<and> polls ! k = (ByInterval, AwaitingStatus)
        \<and> status sd = completed \<and> truthy (portfolio_id sd) \<longrightarrow>
      snd (async_step jobId (StatusAnswered k (Resolved (Some sd))) (st, polls)) ! k
        = (ByInterval, AwaitingPortfolio)
      \<and> intervalId (fst (async_step jobId (StatusAnswered k (Resolved (Some sd))) (st, polls)))
        = intervalId st)
   \<and> (k < length polls \<and> polls ! k = (ByInterval, AwaitingPortfolio) \<longrightarrow>
      intervalId (fst (async_step jobId (PortfolioAnswered k (Resolved (Some portfolio)))
        (st, polls))) = None
      \<and> intervalId (fst (async_step jobId (PortfolioAnswered k (Rejected code)) (st, polls)))
        = intervalId st)
   \<and> (intervalId st = None \<and> list_all is_poll_event later \<longrightarrow>
      intervalId (fst (async_run jobId later (st, polls))) = None
      \<and> length (snd (async_run jobId later (st, polls))) = length polls
      \<and> (list_all has_returned polls \<longrightarrow> async_run jobId later (st, polls) = (st, polls)))"
proof -
  have failed: "intervalId (fst (async_step jobId (StatusAnswered k (Resolved (Some sd))) (st, polls)))
      = None"
    if "k < length polls" and "polls ! k = (ByInterval, AwaitingStatus)" and "status sd = failed"
    using that by (simp add: poll_status_def editor_defs settle_def)
  have suspended: "snd (async_step jobId (StatusAnswered k (Resolved (Some sd))) (st, polls)) ! k
        = (ByInterval, AwaitingPortfolio)
      \<and> intervalId (fst (async_step jobId (StatusAnswered k (Resolved (Some sd))) (st, polls)))
        = intervalId st"
    if "k < length polls" and "polls ! k = (ByInterval, AwaitingStatus)"
      and "status sd = completed" and "truthy (portfolio_id sd)"
    using that by (simp add: poll_status_def editor_defs)
  have fetched: "intervalId (fst (async_step jobId (PortfolioAnswered k (Resolved (Some portfolio)))
      (st, polls))) = None"
    if "k < length polls" and "polls ! k = (ByInterval, AwaitingPortfolio)"
    using that by (simp add: poll_portfolio_def editor_defs settle_def)
  have rejected: "intervalId (fst (async_step jobId (PortfolioAnswered k (Rejected code)) (st, polls)))
      = intervalId st"
    if "k < length polls" and "polls ! k = (ByInterval, AwaitingPortfolio)"
    using that by (simp add: poll_portfolio_def editor_defs settle_def)
  have after: "intervalId (fst (async_run jobId later (st, polls))) = None
      \<and> length (snd (async_run jobId later (st, polls))) = length polls
      \<and> (list_all has_returned polls \<longrightarrow> async_run jobId later (st, polls) = (st, polls))"
    if "intervalId st = None" and "list_all is_poll_event later"
    using cleared_run [OF that] idle_run [OF that(1) _ that(2)] by blast
  from failed suspended fetched rejected after show ?thesis by blast
qed

lemma demo_failed_tick:
  "async_run ''job-1'' [TimerFired, StatusAnswered 0 (Resolved (Some demo_failed))] (demo_mounted, [])
     = (demo_mounted
          \<lparr>messages := [demo_user_message, assistant_says (progress_line demo_failed),
                         assistant_says (failure_text demo_failed)],
           isGenerating := False, jobStatus := Some demo_failed, intervalId := None,
           requests := [GET ''/jobs/job-1'']\<rparr>,
        [(ByInterval, Returned True)])"
  by (simp add: demo_mounted_eq poll_start_def poll_status_def editor_defs settle_def
      coalesce_demo_ack demo_status)

theorem stop_signal_clears_interval_witness:
  "intervalId (fst (async_run ''job-1''
       [TimerFired, StatusAnswered 0 (Resolved (Some demo_failed))] (demo_mounted, []))) = None
   \<and> async_run ''job-1''
       [TimerFired, StatusAnswered 0 (Resolved (Some demo_failed)),
        TimerFired, StatusAnswered 0 (Resolved (Some demo_processing)),
        StatusAnswered 1 (Resolved (Some demo_processing)), PortfolioAnswered 0 (Rejected None)]
       (demo_mounted, [])
     = async_run ''job-1''
         [TimerFired, StatusAnswered 0 (Resolved (Some demo_failed))] (demo_mounted, [])
   \<and> intervalId (fst (async_run ''job-1''
       [TimerFired, StatusAnswered 0 (Resolved (Some demo_completed)),
        PortfolioAnswered 0 (Resolved (Some demo_accepted_body))] (demo_mounted, []))) = None
   \<and> intervalId (fst (async_run ''job-1''
       [TimerFired, StatusAnswered 0 (Resolved (Some demo_completed)),
        PortfolioAnswered 0 (Rejected (Some 404))] (demo_mounted, []))) = Some 2000"
proof -
  let ?st1 = "poll_start ''job-1'' demo_mounted"
  let ?polls1 = "[(ByInterval, AwaitingStatus)]"
  let ?later = "[TimerFired, StatusAnswered 0 (Resolved (Some demo_processing)),
       StatusAnswered 1 (Resolved (Some demo_processing)),
       PortfolioAnswered 0 (Rejected None) :: string AsyncEvent]"
  let ?st4 = "api_get ''/portfolio/job-1''
      (setMessages (coalesce demo_completed) (setJobStatus (Some demo_completed) ?st1))"
  have k: "0 < length ?polls1" and awaiting: "?polls1 ! 0 = (ByInterval, AwaitingStatus)"
    by simp_all
  have failed: "status demo_failed = failed" by (simp add: demo_status)
  from stop_signal_clears_interval [where k = 0 and polls = ?polls1 and sd = demo_failed
      and jobId = "''job-1''" and st = ?st1] k awaiting failed
  have stopped: "intervalId (fst (async_step ''job-1'' (StatusAnswered 0 (Resolved (Some demo_failed)))
      (?st1, ?polls1))) = None"
    by blast
  let ?stop = "async_run ''job-1'' [TimerFired, StatusAnswered 0 (Resolved (Some demo_failed))]
    (demo_mounted, [])"
  have stop: "?stop = async_step ''job-1'' (StatusAnswered 0 (Resolved (Some demo_failed))) (?st1, ?polls1)"
    by (simp add: demo_mounted_eq)
  obtain st2 where st2: "?stop = (st2, [(ByInterval, Returned True)])"
    using demo_failed_tick by blast
  with stop stopped have cleared: "intervalId st2 = None" by simp
  have later: "list_all is_poll_event ?later" by simp
  have returned: "list_all has_returned [(ByInterval, Returned True)]" by simp
  from stop_signal_clears_interval [where st = st2 and polls = "[(ByInterval, Returned True)]"
      and later = ?later and jobId = "''job-1''"] cleared later returned
  have idle: "async_run ''job-1'' ?later (st2, [(ByInterval, Returned True)])
      = (st2, [(ByInterval, Returned True)])"
    by blast
  have "async_run ''job-1''
       ([TimerFired, StatusAnswered 0 (Resolved (Some demo_failed))] @ ?later) (demo_mounted, [])
      = async_run ''job-1'' ?later ?stop"
    by (simp del: async_step.simps)
  with st2 idle have unchanged: "async_run ''job-1''
       ([TimerFired, StatusAnswered 0 (Resolved (Some demo_failed))] @ ?later) (demo_mounted, [])
      = ?stop"
    by simp
  have completed: "async_run ''job-1'' [TimerFired, StatusAnswered 0 (Resolved (Some demo_completed))]
        (demo_mounted, []) = (?st4, [(ByInterval, AwaitingPortfolio)])"
    by (simp add: demo_mounted_eq poll_status_def demo_status truthy_def)
  have live: "intervalId ?st4 = Some 2000"
    by (simp add: editor_defs poll_start_def demo_mounted_eq)
  have k3: "0 < length [(ByInterval, AwaitingPortfolio)]"
    and waiting: "[(ByInterval, AwaitingPortfolio)] ! 0 = (ByInterval, AwaitingPortfolio)"
    by simp_all
  from stop_signal_clears_interval [where k = 0 and polls = "[(ByInterval, AwaitingPortfolio)]"
      and jobId = "''job-1''" and st = ?st4 and portfolio = demo_accepted_body
      and code = "Some 404"] k3 waiting
  have third: "intervalId (fst (async_step ''job-1''
        (PortfolioAnswered 0 (Resolved (Some demo_accepted_body)))
        (?st4, [(ByInterval, AwaitingPortfolio)]))) = None
      \<and> intervalId (fst (async_step ''job-1'' (PortfolioAnswered 0 (Rejected (Some 404)))
        (?st4, [(ByInterval, AwaitingPortfolio)]))) = intervalId ?st4"
    by blast
  have fetched: "intervalId (fst (async_run ''job-1''
       [TimerFired, StatusAnswered 0 (Resolved (Some demo_completed)),
        PortfolioAnswered 0 (Resolved (Some demo_accepted_body))] (demo_mounted, []))) = None"
  proof -
    have "async_run ''job-1''
       [TimerFired, StatusAnswered 0 (Resolved (Some demo_completed)),
        PortfolioAnswered 0 (Resolved (Some demo_accepted_body))] (demo_mounted, [])
      = async_step ''job-1'' (PortfolioAnswered 0 (Resolved (Some demo_accepted_body)))
          (async_run ''job-1'' [TimerFired, StatusAnswered 0 (Resolved (Some demo_completed))]
            (demo_mounted, []))"
      by (simp del: async_step.simps)
    with third show ?thesis unfolding completed by simp
  qed
  have rejected: "intervalId (fst (async_run ''job-1''
       [TimerFired, StatusAnswered 0 (Resolved (Some demo_completed)),
        PortfolioAnswered 0 (Rejected (Some 404))] (demo_mounted, []))) = Some 2000"
  proof -
    have "async_run ''job-1''
       [TimerFired, StatusAnswered 0 (Resolved (Some demo_completed)),
        PortfolioAnswered 0 (Rejected (Some 404))] (demo_mounted, [])
      = async_step ''job-1'' (PortfolioAnswered 0 (Rejected (Some 404)))
          (async_run ''job-1'' [TimerFired, StatusAnswered 0 (Resolved (Some demo_completed))]
            (demo_mounted, []))"
      by (simp del: async_step.simps)
    with third live show ?thesis unfolding completed by simp
  qed
  from stopped stop unchanged fetched rejected show ?thesis by simp
qed

text \<open>
  Two ticks whose polls overlap: both polls see the failed job, and the failure message
  is appended by each.
\<close>

lemma overlapping_polls_report_twice:
  "messages (fst (async_run ''job-1''
       [TimerFired, TimerFired, StatusAnswered 0 (Resolved (Some demo_failed)),
        StatusAnswered 1 (Resolved (Some demo_failed))] (demo_mounted, [])))
     = [demo_user_message, assistant_says (progress_line demo_failed),
        assistant_says (failure_text demo_failed), assistant_says (failure_text demo_failed)]"
proof -
  have kept: "coalesce sd [demo_user_message, assistant_says (progress_line demo_failed),
        assistant_says (failure_text demo_failed)]
      = [demo_user_message, assistant_says (progress_line demo_failed),
         assistant_says (failure_text demo_failed)]" for sd
    using failure_text_no_analyzing by (simp add: coalesce_def assistant_says_def)
  show ?thesis
    by (simp add: demo_mounted_eq poll_start_def poll_status_def editor_defs settle_def
        coalesce_demo_ack kept demo_status)
qed

section \<open>The initial poll\<close>

text \<open>
  C5. The result of the initial call of \<^verbatim>\<open>pollJobStatus\<close> is dropped. When it is
  answered 404 the interval timer stays live; the first tick asks again, and a second
  job-not-found message is appended before the interval is cleared.
\<close>

theorem job_not_found_reported_twice:
  "intervalId (run ''job-1'' [InitialPoll (Rejected (Some 404)) (Rejected None)] demo_mounted)
     = Some 2000
   \<and> messages (run ''job-1''
        [InitialPoll (Rejected (Some 404)) (Rejected None),
         IntervalTick (Rejected (Some 404)) (Rejected None)] demo_mounted)
     = [demo_user_message,
        assistant_says (acknowledgement_text (Some ''resume.pdf'') ''job-1''),
        assistant_says job_not_found_text, assistant_says job_not_found_text]
   \<and> requests (run ''job-1''
        [InitialPoll (Rejected (Some 404)) (Rejected None),
         IntervalTick (Rejected (Some 404)) (Rejected None)] demo_mounted)
     = [GET ''/jobs/job-1'', GET ''/jobs/job-1'']"
proof -
  let ?initial = "run ''job-1'' [InitialPoll (Rejected (Some 404)) (Rejected None)] demo_mounted"
  have initial: "?initial
      = demo_mounted\<lparr>messages := messages demo_mounted @ [assistant_says job_not_found_text],
                     isGenerating := False, console := [ErrorPollingJobStatus],
                     requests := [GET ''/jobs/job-1'']\<rparr>"
    by (simp add: poll_job_not_found demo_mounted_eq)
  then have live: "intervalId ?initial = Some 2000"
    by (simp add: demo_mounted_eq)
  have again: "run ''job-1''
        [InitialPoll (Rejected (Some 404)) (Rejected None),
         IntervalTick (Rejected (Some 404)) (Rejected None)] demo_mounted
      = step ''job-1'' (IntervalTick (Rejected (Some 404)) (Rejected None)) ?initial"
    by simp
  show ?thesis
    unfolding again
    by (simp add: live intervalCallback_def poll_job_not_found clearInterval_def)
      (simp add: initial demo_mounted_eq)
qed

text \<open>
  C7. The same for a job that has failed when the editor mounts: the initial poll appends
  the failure message and polling goes on; the first tick fetches the failed snapshot
  again and appends the failure message a second time.
\<close>

theorem failure_reported_twice:
  "intervalId (run ''job-1'' [InitialPoll (Resolved (Some demo_failed)) (Rejected None)] demo_mounted)
     = Some 2000
   \<and> messages (run ''job-1''
        [InitialPoll (Resolved (Some demo_failed)) (Rejected None),
         IntervalTick (Resolved (Some demo_failed)) (Rejected None)] demo_mounted)
     = [demo_user_message, assistant_says (progress_line demo_failed),
        assistant_says (failure_text demo_failed), assistant_says (failure_text demo_failed)]
   \<and> requests (run ''job-1''
        [InitialPoll (Resolved (Some demo_failed)) (Rejected None),
         IntervalTick (Resolved (Some demo_failed)) (Rejected None)] demo_mounted)
     = [GET ''/jobs/job-1'', GET ''/jobs/job-1'']"
proof -
  have kept: "coalesce sd [demo_user_message, assistant_says (progress_line demo_failed),
        assistant_says (failure_text demo_failed)]
      = [demo_user_message, assistant_says (progress_line demo_failed),
         assistant_says (failure_text demo_failed)]" for sd
    using failure_text_no_analyzing by (simp add: coalesce_def assistant_says_def)
  show ?thesis
    by (simp add: demo_mounted_eq intervalCallback_def pollJobStatus_def editor_defs
        coalesce_demo_ack kept demo_status truthy_def)
qed

end
